theory Spec2Isabelle
  imports Main "HOL-Library.Multiset"
begin

section \<open>Dashboard statistics (server/app/routes/statsRoutes.py)\<close>

subsection \<open>Timestamps\<close>

text \<open>
  A timezone-aware \<open>datetime\<close> whose \<open>tzinfo\<close> is UTC, with the fields Python gives it.
  \<open>datetime.now(timezone.utc)\<close> produces such a value, and the timestamp column is
  timezone-aware, so every instant of the model is normalised to UTC.
\<close>

record datetime =
  year :: int
  month :: int
  day :: int
  hour :: int
  minute :: int
  second :: int
  microsecond :: int

text \<open>
  Two aware datetimes of the same zone compare field by field, most significant first.
\<close>

fun lex_ge :: "int list \<Rightarrow> int list \<Rightarrow> bool" where
  "lex_ge (x # xs) (y # ys) = (y < x \<or> (x = y \<and> lex_ge xs ys))"
| "lex_ge _ _ = True"

definition dt_fields :: "datetime \<Rightarrow> int list" where
  "dt_fields d = [year d, month d, day d, hour d, minute d, second d, microsecond d]"

definition dt_ge :: "datetime \<Rightarrow> datetime \<Rightarrow> bool" where
  "dt_ge a b = lex_ge (dt_fields a) (dt_fields b)"

text \<open>\<^verbatim>\<open>today_start = now.replace(hour=0, minute=0, second=0, microsecond=0)\<close>\<close>

definition today_start :: "datetime \<Rightarrow> datetime" where
  "today_start now = now\<lparr>hour := 0, minute := 0, second := 0, microsecond := 0\<rparr>"

subsection \<open>Rows and tables\<close>

text \<open>
  The ORM classes live in \<open>app/models\<close>; the columns below are the ones the route reads.
  Only \<open>contact_id\<close> is nullable.
\<close>

record interaction =
  i_id :: int
  i_user_id :: int
  contact_id :: "int option"
  timestamp :: datetime

record alert =
  a_id :: int
  a_user_id :: int
  read :: bool

record reminder =
  r_id :: int
  r_user_id :: int
  completed :: bool
  enabled :: bool

record user =
  u_id :: int

record database =
  interactions :: "interaction list"
  alerts :: "alert list"
  reminders :: "reminder list"

subsection \<open>The query operations the route uses\<close>

text \<open>\<open>Query.filter(c1, c2, ...)\<close> keeps the rows that satisfy every criterion.\<close>

definition sql_filter :: "('r \<Rightarrow> bool) list \<Rightarrow> 'r list \<Rightarrow> 'r list" where
  "sql_filter conds rows = filter (\<lambda>r. list_all (\<lambda>c. c r) conds) rows"

text \<open>
  \<open>func.count(col)\<close> is an aggregate: the result has one row, holding the number of
  rows whose \<open>col\<close> is not NULL.
\<close>

definition sql_count :: "('r \<Rightarrow> 'a option) \<Rightarrow> 'r list \<Rightarrow> int list" where
  "sql_count col rows = [int (length (filter (\<lambda>r. col r \<noteq> None) rows))]"

text \<open>\<open>func.count(distinct(col))\<close>: the number of different non-NULL values of \<open>col\<close>.\<close>

definition sql_count_distinct :: "('r \<Rightarrow> 'a option) \<Rightarrow> 'r list \<Rightarrow> int list" where
  "sql_count_distinct col rows = [int (length (remdups (List.map_filter col rows)))]"

text \<open>\<open>Query.scalar()\<close>: the first column of the first row, \<open>None\<close> when there is no row.\<close>

definition scalar :: "'a list \<Rightarrow> 'a option" where
  "scalar res = (case res of [] \<Rightarrow> None | v # _ \<Rightarrow> Some v)"

text \<open>Python's \<open>x or d\<close> on an optional integer: \<open>None\<close> and \<open>0\<close> are falsy.\<close>

definition py_or :: "int option \<Rightarrow> int \<Rightarrow> int" where
  "py_or x d = (case x of None \<Rightarrow> d | Some n \<Rightarrow> if n = 0 then d else n)"

subsection \<open>The route\<close>

text \<open>
  \<open>get_dashboard_stats\<close> takes the database behind the session, the authenticated user and
  the instant \<open>datetime.now(timezone.utc)\<close> returned. Its result is the dictionary literal
  of the source, as an association list in the order written. The \<open>print\<close> calls and the
  query that only feeds them do not influence the result and are left out.
\<close>

definition visitors_today :: "database \<Rightarrow> user \<Rightarrow> datetime \<Rightarrow> int" where
  "visitors_today db current_user now =
     py_or (scalar (sql_count_distinct contact_id
       (sql_filter
          [\<lambda>i. i_user_id i = u_id current_user,
           \<lambda>i. contact_id i \<noteq> None,
           \<lambda>i. dt_ge (timestamp i) (today_start now)]
          (interactions db)))) 0"

definition total_conversations :: "database \<Rightarrow> user \<Rightarrow> int" where
  "total_conversations db current_user =
     py_or (scalar (sql_count (\<lambda>i. Some (i_id i))
       (sql_filter [\<lambda>i. i_user_id i = u_id current_user] (interactions db)))) 0"

definition unread_alerts :: "database \<Rightarrow> user \<Rightarrow> int" where
  "unread_alerts db current_user =
     py_or (scalar (sql_count (\<lambda>a. Some (a_id a))
       (sql_filter
          [\<lambda>a. a_user_id a = u_id current_user,
           \<lambda>a. read a = False]
          (alerts db)))) 0"

definition upcoming_reminders :: "database \<Rightarrow> user \<Rightarrow> int" where
  "upcoming_reminders db current_user =
     py_or (scalar (sql_count (\<lambda>r. Some (r_id r))
       (sql_filter
          [\<lambda>r. r_user_id r = u_id current_user,
           \<lambda>r. completed r = False,
           \<lambda>r. enabled r = True]
          (reminders db)))) 0"

definition get_dashboard_stats :: "database \<Rightarrow> user \<Rightarrow> datetime \<Rightarrow> (string \<times> int) list" where
  "get_dashboard_stats db current_user now =
     [(''visitors'', visitors_today db current_user now),
      (''conversations'', total_conversations db current_user),
      (''unreadAlerts'', unread_alerts db current_user),
      (''upcomingReminders'', upcoming_reminders db current_user)]"

subsection \<open>The window the specification describes\<close>

text \<open>
  The specification restricts \<open>visitors\<close> to the current UTC day "from 00:00:00.000000
  through the supplied now instant, inclusive of both ends". \<open>visitors_spec\<close> follows these
  words; it is compared with \<open>visitors_today\<close>, which follows the source.
\<close>

definition in_current_day :: "datetime \<Rightarrow> datetime \<Rightarrow> bool" where
  "in_current_day now t = (dt_ge t (today_start now) \<and> dt_ge now t)"

definition visitors_spec :: "database \<Rightarrow> user \<Rightarrow> datetime \<Rightarrow> int" where
  "visitors_spec db current_user now =
     int (card (set (List.map_filter contact_id
       (filter (\<lambda>i. i_user_id i = u_id current_user \<and> in_current_day now (timestamp i))
          (interactions db)))))"

subsection \<open>Example data\<close>

definition noon :: datetime where
  "noon = \<lparr>year = 2025, month = 11, day = 4, hour = 12, minute = 0, second = 0, microsecond = 0\<rparr>"

definition at_time :: "int \<Rightarrow> int \<Rightarrow> datetime" where
  "at_time d h =
     \<lparr>year = 2025, month = 11, day = d, hour = h, minute = 30, second = 0, microsecond = 0\<rparr>"

text \<open>
  User 1 on 4 November 2025 at noon: three interactions today (contacts 10 and 11, one
  without contact), two from yesterday with contacts; three reminders, one of them incomplete
  and enabled, one incomplete and disabled.
\<close>

definition scenario_db :: database where
  "scenario_db =
     \<lparr>interactions =
        [\<lparr>i_id = 1, i_user_id = 1, contact_id = Some 10, timestamp = at_time 3 9\<rparr>,
         \<lparr>i_id = 2, i_user_id = 1, contact_id = Some 12, timestamp = at_time 3 17\<rparr>,
         \<lparr>i_id = 3, i_user_id = 1, contact_id = Some 10, timestamp = at_time 4 8\<rparr>,
         \<lparr>i_id = 4, i_user_id = 1, contact_id = None, timestamp = at_time 4 9\<rparr>,
         \<lparr>i_id = 5, i_user_id = 1, contact_id = Some 11, timestamp = at_time 4 10\<rparr>],
      alerts = [],
      reminders =
        [\<lparr>r_id = 1, r_user_id = 1, completed = False, enabled = True\<rparr>,
         \<lparr>r_id = 2, r_user_id = 1, completed = False, enabled = False\<rparr>,
         \<lparr>r_id = 3, r_user_id = 1, completed = True, enabled = True\<rparr>]\<rparr>"

definition other_users_rows :: database where
  "other_users_rows =
     \<lparr>interactions =
        [\<lparr>i_id = 6, i_user_id = 2, contact_id = Some 13, timestamp = at_time 4 11\<rparr>],
      alerts =
        [\<lparr>a_id = 1, a_user_id = 2, read = False\<rparr>,
         \<lparr>a_id = 2, a_user_id = 2, read = False\<rparr>,
         \<lparr>a_id = 3, a_user_id = 2, read = False\<rparr>],
      reminders = [\<lparr>r_id = 4, r_user_id = 2, completed = False, enabled = True\<rparr>]\<rparr>"

definition db_union :: "database \<Rightarrow> database \<Rightarrow> database" where
  "db_union a b =
     \<lparr>interactions = interactions a @ interactions b,
      alerts = alerts a @ alerts b,
      reminders = reminders a @ reminders b\<rparr>"

text \<open>One interaction of user 1 dated 18:30 on the current day, while the clock says 12:00.\<close>

definition later_today_db :: database where
  "later_today_db =
     \<lparr>interactions =
        [\<lparr>i_id = 1, i_user_id = 1, contact_id = Some 7, timestamp = at_time 4 18\<rparr>],
      alerts = [], reminders = []\<rparr>"

section \<open>Maintenance scripts\<close>

subsection \<open>Strings\<close>

text \<open>
  A character of the model is a code point below 256; the string operations are the ones of
  Python's \<open>str\<close> on such text.
\<close>

definition nl :: char where "nl = CHR 0x0A"
definition dquote :: char where "dquote = CHR 0x22"
definition squote :: char where "squote = CHR 0x27"

text \<open>\<open>s.startswith(p)\<close>\<close>

fun startswith :: "string \<Rightarrow> string \<Rightarrow> bool" where
  "startswith s [] = True"
| "startswith [] (p # ps) = False"
| "startswith (c # cs) (p # ps) = (c = p \<and> startswith cs ps)"

text \<open>\<open>sub in s\<close>: \<open>sub\<close> occurs in \<open>s\<close> as a contiguous substring.\<close>

fun str_in :: "string \<Rightarrow> string \<Rightarrow> bool" where
  "str_in sub [] = (sub = [])"
| "str_in sub (c # cs) = (startswith (c # cs) sub \<or> str_in sub cs)"

text \<open>\<open>s.split(sep)\<close> for a separator of one character; the result is never empty.\<close>

fun str_split :: "char \<Rightarrow> string \<Rightarrow> string list" where
  "str_split sep [] = [[]]"
| "str_split sep (c # cs) =
     (if c = sep then [] # str_split sep cs
      else (case str_split sep cs of [] \<Rightarrow> [[c]] | l # ls \<Rightarrow> (c # l) # ls))"

text \<open>\<open>str.isspace\<close> on one character, \<open>s.strip()\<close>, \<open>s.lower()\<close>.\<close>

definition isspace :: "char \<Rightarrow> bool" where
  "isspace c = (of_char c \<in> set [9, 10, 11, 12, 13, 28, 29, 30, 31, 32, 133, 160 :: nat])"

definition strip :: "string \<Rightarrow> string" where
  "strip s = rev (dropWhile isspace (rev (dropWhile isspace s)))"

definition lower_char :: "char \<Rightarrow> char" where
  "lower_char c =
     (let n = of_char c :: nat
      in if (65 \<le> n \<and> n \<le> 90) \<or> (192 \<le> n \<and> n \<le> 222 \<and> n \<noteq> 215) then char_of (n + 32) else c)"

definition lower :: "string \<Rightarrow> string" where
  "lower s = map lower_char s"

subsection \<open>The world the scripts run in\<close>

text \<open>An exception carries the text \<open>str(e)\<close> prints.\<close>

datatype exn = Exception (str: string)

text \<open>
  A printed line is plain text, or text around one of the three symbols the scripts print
  (check mark, ballot cross, warning sign): \<open>Glyph pre g post\<close> is the line \<open>pre\<close>, the
  symbol, \<open>post\<close>. \<open>Line_ref n s\<close> is the line \<^verbatim>\<open>f"      Line {n}: {s}"\<close>.
\<close>

datatype glyph = Check | Cross | Warn

datatype line = Text string | Glyph string glyph string | Line_ref nat string

datatype db_op = New_session | Select | Alter | Commit | Rollback | Close

text \<open>
  \<open>info_columns\<close> holds the committed rows \<open>(table_name, column_name)\<close> of
  \<open>information_schema.columns\<close>; \<open>txn\<close> is the catalogue as the session's open
  transaction sees it, \<open>None\<close> when no transaction is open. \<open>db_fault\<close> says which
  statements the server refuses and with which error; \<open>db_log\<close> records the session
  calls made. \<open>chroma_records\<close> are the metadata entries of the conversation collection
  (an entry stored without metadata is \<open>None\<close>), \<open>model_attrs\<close> the attributes of
  the \<open>Interaction\<close> class or the error of importing it, \<open>files\<close> what
  \<open>open(path).read()\<close> gives, \<open>stdin\<close> the lines \<open>input\<close> can still read.
\<close>

type_synonym metadata = "(string \<times> string) list"

record world =
  info_columns :: "(string \<times> string) list"
  txn :: "(string \<times> string) list option"
  db_fault :: "db_op \<Rightarrow> exn option"
  db_log :: "db_op list"
  chroma_connect_fault :: "exn option"
  chroma_get_fault :: "exn option"
  chroma_records :: "metadata option list"
  model_attrs :: "exn + string list"
  files :: "string \<Rightarrow> exn + string"
  stdin :: "string list"
  stdout :: "line list"

subsection \<open>Programs: state, exceptions, \<open>try\<close>\<close>

type_synonym 'a prog = "world \<Rightarrow> (exn + 'a) \<times> world"

definition ret :: "'a \<Rightarrow> 'a prog" where
  "ret x = (\<lambda>w. (Inr x, w))"

definition raise :: "exn \<Rightarrow> 'a prog" where
  "raise e = (\<lambda>w. (Inl e, w))"

definition bnd :: "'a prog \<Rightarrow> ('a \<Rightarrow> 'b prog) \<Rightarrow> 'b prog" where
  "bnd m f = (\<lambda>w. case m w of (Inl e, w') \<Rightarrow> (Inl e, w') | (Inr x, w') \<Rightarrow> f x w')"

text \<open>\<open>try: m except Exception as e: h e\<close>\<close>

definition try_except :: "'a prog \<Rightarrow> (exn \<Rightarrow> 'a prog) \<Rightarrow> 'a prog" where
  "try_except m h = (\<lambda>w. case m w of (Inl e, w') \<Rightarrow> h e w' | (Inr x, w') \<Rightarrow> (Inr x, w'))"

text \<open>
  \<open>try: m finally: fin\<close> runs \<open>fin\<close> whatever \<open>m\<close> did and then continues with the
  outcome of \<open>m\<close>, unless \<open>fin\<close> raises itself.
\<close>

definition try_finally :: "'a prog \<Rightarrow> unit prog \<Rightarrow> 'a prog" where
  "try_finally m fin =
     (\<lambda>w. case m w of (r, w') \<Rightarrow>
        (case fin w' of (Inl e, w'') \<Rightarrow> (Inl e, w'') | (Inr _, w'') \<Rightarrow> (r, w'')))"

text \<open>A \<open>for\<close> loop whose body updates local variables, passed along as \<open>acc\<close>.\<close>

fun for_each :: "'a list \<Rightarrow> ('a \<Rightarrow> 'b \<Rightarrow> 'b prog) \<Rightarrow> 'b \<Rightarrow> 'b prog" where
  "for_each [] body acc = ret acc"
| "for_each (x # xs) body acc = bnd (body x acc) (\<lambda>acc'. for_each xs body acc')"

definition print :: "line \<Rightarrow> unit prog" where
  "print l = (\<lambda>w. (Inr (), w\<lparr>stdout := stdout w @ [l]\<rparr>))"


subsection \<open>The database session\<close>

definition mood_column :: "string \<times> string" where
  "mood_column = (''interactions'', ''mood'')"

definition view :: "world \<Rightarrow> (string \<times> string) list" where
  "view w = (case txn w of None \<Rightarrow> info_columns w | Some v \<Rightarrow> v)"

text \<open>\<open>db = SessionLocal()\<close>: a fresh session, no transaction yet.\<close>

definition SessionLocal :: "unit prog" where
  "SessionLocal = (\<lambda>w. (Inr (), w\<lparr>txn := None, db_log := db_log w @ [New_session]\<rparr>))"

text \<open>
  \<open>db.execute(text("SELECT column_name FROM information_schema.columns WHERE
  table_name='interactions' AND column_name='mood'"))\<close>. The first statement of a session
  opens its transaction.
\<close>

definition execute_select :: "string list prog" where
  "execute_select =
     (\<lambda>w. let w1 = w\<lparr>txn := Some (view w), db_log := db_log w @ [Select]\<rparr>
          in case db_fault w Select of
               Some e \<Rightarrow> (Inl e, w1)
             | None \<Rightarrow> (Inr (map snd (filter (\<lambda>r. r = mood_column) (view w))), w1))"

definition fetchone :: "'a list \<Rightarrow> 'a option" where
  "fetchone rows = (case rows of [] \<Rightarrow> None | r # _ \<Rightarrow> Some r)"

text \<open>
  \<open>db.execute(text("ALTER TABLE interactions DROP COLUMN mood"))\<close>: the server refuses to
  drop a column the table does not have.
\<close>

definition execute_alter :: "unit prog" where
  "execute_alter =
     (\<lambda>w. let w1 = w\<lparr>txn := Some (view w), db_log := db_log w @ [Alter]\<rparr>
          in case db_fault w Alter of
               Some e \<Rightarrow> (Inl e, w1)
             | None \<Rightarrow>
                 if mood_column \<in> set (view w)
                 then (Inr (), w1\<lparr>txn := Some (filter (\<lambda>r. r \<noteq> mood_column) (view w))\<rparr>)
                 else (Inl (Exception ''column mood of relation interactions does not exist''), w1))"

text \<open>\<open>db.commit()\<close> makes the transaction's catalogue the committed one, or fails and changes nothing.\<close>

definition commit :: "unit prog" where
  "commit =
     (\<lambda>w. let w1 = w\<lparr>db_log := db_log w @ [Commit]\<rparr>
          in case db_fault w Commit of
               Some e \<Rightarrow> (Inl e, w1)
             | None \<Rightarrow> (Inr (), w1\<lparr>info_columns := view w, txn := None\<rparr>))"

text \<open>\<open>db.rollback()\<close> and \<open>db.close()\<close> both discard what the transaction has not committed.\<close>

definition rollback :: "unit prog" where
  "rollback = (\<lambda>w. (Inr (), w\<lparr>txn := None, db_log := db_log w @ [Rollback]\<rparr>))"

definition close :: "unit prog" where
  "close = (\<lambda>w. (Inr (), w\<lparr>txn := None, db_log := db_log w @ [Close]\<rparr>))"

section \<open>The migration (server/migrations/remove\_mood\_column.py)\<close>



section \<open>The verification script (server/verify\_mood\_removal.py)\<close>

definition status :: "glyph \<Rightarrow> string \<Rightarrow> string \<Rightarrow> line" where
  "status g word msg = Glyph ''   '' g ('' '' @ word @ '': '' @ msg)"

text \<open>
  In this script the session is created before the \<open>try\<close> and closed in the \<open>finally\<close>,
  where no \<open>except\<close> covers it, so it matters here that these two calls can fail too:
  \<open>may_fail op m\<close> raises the error the server answers \<open>op\<close> with, if any, and runs \<open>m\<close>
  otherwise. (In the migration both calls are taken to return.)
\<close>

definition may_fail :: "db_op \<Rightarrow> unit prog \<Rightarrow> unit prog" where
  "may_fail op m =
     (\<lambda>w. case db_fault w op of
        Some e \<Rightarrow> (Inl e, w\<lparr>db_log := db_log w @ [op]\<rparr>)
      | None \<Rightarrow> m w)"

definition check_database_schema :: "bool prog" where
  "check_database_schema =
     bnd (print (Text (nl # ''1. Checking Database Schema...''))) (\<lambda>_.
     bnd (may_fail New_session SessionLocal) (\<lambda>_.
     try_finally
       (try_except
          (bnd execute_select (\<lambda>result.
           if fetchone result \<noteq> None
           then bnd (print (status Cross ''FAIL'' ''mood column still exists in database'')) (\<lambda>_.
                ret False)
           else bnd (print (status Check ''PASS'' ''mood column removed from database'')) (\<lambda>_.
                ret True)))
          (\<lambda>e. bnd (print (status Cross ''ERROR'' (str e))) (\<lambda>_.
                ret False)))
       (may_fail Close close)))"

text \<open>
  \<open>get_conversation_collection()\<close> and \<open>collection.get(limit=5)\<close>; of the result only
  \<open>results['metadatas']\<close> is read, and the result dictionary itself is never falsy.
\<close>

definition get_conversation_collection :: "metadata option list prog" where
  "get_conversation_collection =
     (\<lambda>w. case chroma_connect_fault w of
        Some e \<Rightarrow> (Inl e, w)
      | None \<Rightarrow> (Inr (chroma_records w), w))"

definition collection_get :: "metadata option list \<Rightarrow> nat \<Rightarrow> metadata option list prog" where
  "collection_get collection limit =
     (\<lambda>w. case chroma_get_fault w of
        Some e \<Rightarrow> (Inl e, w)
      | None \<Rightarrow> (Inr (take limit collection), w))"

text \<open>
  The loop over \<open>results['metadatas']\<close> with its \<open>break\<close>. \<open>'mood' in metadata\<close> is a
  key test on a dictionary and a \<open>TypeError\<close> on \<open>None\<close>.
\<close>

fun has_mood_loop :: "metadata option list \<Rightarrow> bool prog" where
  "has_mood_loop [] = ret False"
| "has_mood_loop (None # rest) =
     raise (Exception (''argument of type '' @ [squote] @ ''NoneType'' @ [squote] @
                       '' is not iterable''))"
| "has_mood_loop (Some metadata # rest) =
     (if ''mood'' \<in> set (map fst metadata) then ret True else has_mood_loop rest)"

definition check_chromadb_metadata :: "bool prog" where
  "check_chromadb_metadata =
     bnd (print (Text (nl # ''2. Checking ChromaDB Metadata...''))) (\<lambda>_.
     try_except
       (bnd get_conversation_collection (\<lambda>collection.
        bnd (collection_get collection 5) (\<lambda>metadatas.
        if metadatas = []
        then bnd (print (status Warn ''WARNING'' ''No entries found in ChromaDB'')) (\<lambda>_.
             ret True)
        else bnd (has_mood_loop metadatas) (\<lambda>has_mood.
             if has_mood
             then bnd (print (status Warn ''WARNING''
                         ''Some entries still have mood in metadata'')) (\<lambda>_.
                  bnd (print (Text
                         ''   Note: Old entries may still have mood, but new entries should not'')) (\<lambda>_.
                  ret True))
             else bnd (print (status Check ''PASS''
                         ''No mood field found in ChromaDB metadata'')) (\<lambda>_.
                  ret True)))))
       (\<lambda>e. bnd (print (status Cross ''ERROR'' (str e))) (\<lambda>_.
             ret False)))"

text \<open>\<open>from app.models import Interaction\<close> and \<open>hasattr(Interaction, 'mood')\<close>.\<close>

definition import_Interaction :: "string list prog" where
  "import_Interaction = (\<lambda>w. case model_attrs w of Inl e \<Rightarrow> (Inl e, w) | Inr attrs \<Rightarrow> (Inr attrs, w))"

definition hasattr :: "string list \<Rightarrow> string \<Rightarrow> bool" where
  "hasattr attrs name = (name \<in> set attrs)"

definition check_model_definition :: "bool prog" where
  "check_model_definition =
     bnd (print (Text (nl # ''3. Checking Model Definition...''))) (\<lambda>_.
     try_except
       (bnd import_Interaction (\<lambda>Interaction.
        if hasattr Interaction ''mood''
        then bnd (print (status Cross ''FAIL'' ''Interaction model still has mood attribute'')) (\<lambda>_.
             ret False)
        else bnd (print (status Check ''PASS''
                    ''Interaction model does not have mood attribute'')) (\<lambda>_.
             ret True)))
       (\<lambda>e. bnd (print (status Cross ''ERROR'' (str e))) (\<lambda>_.
             ret False)))"

definition files_to_check :: "string list" where
  "files_to_check =
     [''app/routes/interactionRoutes.py'',
      ''app/routes/asrRoutes.py'',
      ''app/routes/searchRoutes.py'',
      ''ai_engine/asr/conversation_store.py'']"

text \<open>\<open>open(full_path, 'r')\<close> and \<open>f.read()\<close>; paths are relative to the script's directory.\<close>

definition read_file :: "string \<Rightarrow> string prog" where
  "read_file path = (\<lambda>w. case files w path of Inl e \<Rightarrow> (Inl e, w) | Inr content \<Rightarrow> (Inr content, w))"

text \<open>The loop that collects \<open>mood_refs\<close> from the content of one file.\<close>

definition find_mood_refs :: "string \<Rightarrow> (nat \<times> string) list" where
  "find_mood_refs content =
     [(i, strip line). (i, line) \<leftarrow> enumerate 1 (str_split nl content),
        str_in ''mood'' (lower line) \<and> \<not> startswith (strip line) ''#'',
        str_in ([dquote] @ ''mood'' @ [dquote]) line \<or> str_in ([squote] @ ''mood'' @ [squote]) line]"

definition check_file :: "string \<Rightarrow> bool \<Rightarrow> bool prog" where
  "check_file file_path all_clean =
     try_except
       (bnd (read_file file_path) (\<lambda>content.
        let mood_refs = find_mood_refs content
        in if mood_refs \<noteq> []
           then bnd (print (status Warn ''WARNING''
                       (''Found mood references in '' @ file_path @ '':''))) (\<lambda>_.
                bnd (for_each (take 3 mood_refs)
                       (\<lambda>(line_num, line) _. print (Line_ref line_num (take 80 line))) ()) (\<lambda>_.
                ret False))
           else ret all_clean))
       (\<lambda>e. bnd (print (status Cross ''ERROR''
                     (''checking '' @ file_path @ '': '' @ str e)))
               (\<lambda>_. ret False))"

definition check_route_definitions :: "bool prog" where
  "check_route_definitions =
     bnd (print (Text (nl # ''4. Checking Route Definitions...''))) (\<lambda>_.
     bnd (for_each files_to_check check_file True) (\<lambda>all_clean.
     bnd (if all_clean
          then print (status Check ''PASS'' ''No mood references found in route files'')
          else ret ()) (\<lambda>_.
     ret all_clean)))"

definition summary_line :: "string \<times> bool \<Rightarrow> line" where
  "summary_line r =
     (case r of (check_name, passed) \<Rightarrow>
        if passed then Glyph [] Check ('' PASS: '' @ check_name)
        else Glyph [] Cross ('' FAIL: '' @ check_name))"

text \<open>\<open>main()\<close>; its value is the exit status of the process.\<close>

definition main :: "int prog" where
  "main =
     bnd (print (Text (replicate 70 CHR ''=''))) (\<lambda>_.
     bnd (print (Text ''Mood Removal Verification Script'')) (\<lambda>_.
     bnd (print (Text (replicate 70 CHR ''=''))) (\<lambda>_.
     bnd check_database_schema (\<lambda>r1.
     bnd check_chromadb_metadata (\<lambda>r2.
     bnd check_model_definition (\<lambda>r3.
     bnd check_route_definitions (\<lambda>r4.
     let results = [(''Database Schema'', r1), (''ChromaDB Metadata'', r2),
                    (''Model Definition'', r3), (''Route Definitions'', r4)]
     in
     bnd (print (Text (nl # replicate 70 CHR ''=''))) (\<lambda>_.
     bnd (print (Text ''Verification Summary'')) (\<lambda>_.
     bnd (print (Text (replicate 70 CHR ''=''))) (\<lambda>_.
     bnd (for_each results (\<lambda>r _. print (summary_line r)) ()) (\<lambda>_.
     let all_passed = list_all snd results
     in
     bnd (print (Text (nl # replicate 70 CHR ''=''))) (\<lambda>_.
     bnd (if all_passed
          then print (Glyph [] Check '' All checks passed! Mood feature successfully removed.'')
          else print (Glyph [] Cross '' Some checks failed. Please review the output above.'')) (\<lambda>_.
     bnd (print (Text (replicate 70 CHR ''=''))) (\<lambda>_.
     ret (if all_passed then 0 else 1)))))))))))))))"

section \<open>Notions used to state the properties of the scripts\<close>

text \<open>
  Two worlds have the same environment when they differ at most in what the scripts
  themselves change while running: the session's transaction, the log of session calls,
  the input still unread and the output printed.
\<close>

definition same_env :: "world \<Rightarrow> world \<Rightarrow> bool" where
  "same_env w w' =
     (info_columns w' = info_columns w \<and> db_fault w' = db_fault w
      \<and> chroma_connect_fault w' = chroma_connect_fault w
      \<and> chroma_get_fault w' = chroma_get_fault w
      \<and> chroma_records w' = chroma_records w
      \<and> model_attrs w' = model_attrs w \<and> files w' = files w)"

text \<open>The lines a program prints when started in \<open>w\<close>.\<close>

definition out_of :: "'a prog \<Rightarrow> world \<Rightarrow> line list" where
  "out_of m w = drop (length (stdout w)) (stdout (snd (m w)))"

text \<open>
  A program is isolated when its outcome and the lines it prints depend on the environment
  only, and it changes nothing of the environment and only appends to the output.
\<close>

definition isolated :: "'a prog \<Rightarrow> bool" where
  "isolated m =
     (\<forall>w. \<exists>x out. \<forall>w2. same_env w w2 \<longrightarrow>
        (\<exists>w3. m w2 = (x, w3) \<and> same_env w2 w3 \<and> stdout w3 = stdout w2 @ out))"

text \<open>A file is clean when it can be read and the loop collects no reference from it.\<close>

definition file_clean :: "world \<Rightarrow> string \<Rightarrow> bool" where
  "file_clean w path = (case files w path of Inl e \<Rightarrow> False | Inr content \<Rightarrow> find_mood_refs content = [])"

subsection \<open>Example worlds\<close>

text \<open>
  \<open>clean_world\<close>: the column is gone, the collection holds one entry without the key, the
  model has no such attribute and no file mentions the token. \<open>legacy_world\<close> still has the
  column. \<open>quoted_world\<close> is clean except for one quoted occurrence of the token in a route file.
\<close>

definition clean_world :: world where
  "clean_world =
     \<lparr>info_columns = [(''interactions'', ''id''), (''interactions'', ''contact_id''), (''users'', ''id'')],
      txn = None,
      db_fault = (\<lambda>_. None),
      db_log = [],
      chroma_connect_fault = None,
      chroma_get_fault = None,
      chroma_records = [Some [(''speaker'', ''visitor'')]],
      model_attrs = Inr [''id'', ''user_id'', ''contact_id'', ''timestamp''],
      files = (\<lambda>_. Inr ''x = 1''),
      stdin = [],
      stdout = []\<rparr>"



text \<open>
  \<open>close_refused_world\<close>: the clean world behind a server that loses the connection when
  the session is closed.
\<close>

definition close_refused_world :: world where
  "close_refused_world =
     clean_world\<lparr>db_fault := (\<lambda>k. if k = Close then Some (Exception ''connection lost'') else None)\<rparr>"

definition quoted_line :: string where
  "quoted_line = ''m = data['' @ [dquote] @ ''mood'' @ [dquote] @ '']''"

definition quoted_world :: world where
  "quoted_world =
     clean_world\<lparr>files := (\<lambda>p. if p = ''app/routes/asrRoutes.py'' then Inr quoted_line else Inr ''x = 1''),
                 chroma_records := [Some [(''mood'', ''happy'')]]\<rparr>"

section \<open>Properties of the dashboard statistics\<close>

lemmas stats_eval =
  get_dashboard_stats_def visitors_today_def total_conversations_def unread_alerts_def
  upcoming_reminders_def sql_filter_def sql_count_def sql_count_distinct_def scalar_def py_or_def
  dt_ge_def dt_fields_def today_start_def map_filter_def

lemmas example_eval =
  noon_def at_time_def scenario_db_def other_users_rows_def db_union_def later_today_db_def

subsection \<open>What each query counts\<close>

lemma py_or_scalar_count: "py_or (scalar [int n]) 0 = int n"
  by (simp add: py_or_def scalar_def)

lemma set_map_filter: "set (List.map_filter f xs) = {y. \<exists>x \<in> set xs. f x = Some y}"
  by (force simp: map_filter_def image_iff)

lemma visitors_today_card:
  "visitors_today db u now =
     int (card {c. \<exists>i \<in> set (interactions db). i_user_id i = u_id u \<and> contact_id i = Some c
                    \<and> dt_ge (timestamp i) (today_start now)})"
proof -
  let ?P = "\<lambda>i. i_user_id i = u_id u \<and> contact_id i \<noteq> None \<and> dt_ge (timestamp i) (today_start now)"
  have "set (List.map_filter contact_id (filter ?P (interactions db))) =
        {c. \<exists>i \<in> set (interactions db). i_user_id i = u_id u \<and> contact_id i = Some c
                    \<and> dt_ge (timestamp i) (today_start now)}"
    by (auto simp: set_map_filter)
  then show ?thesis
    by (simp add: visitors_today_def sql_filter_def sql_count_distinct_def py_or_scalar_count
        length_remdups_card_conv)
qed

lemma total_conversations_length:
  "total_conversations db u = int (length (filter (\<lambda>i. i_user_id i = u_id u) (interactions db)))"
  by (simp add: total_conversations_def sql_filter_def sql_count_def py_or_scalar_count)

lemma unread_alerts_length:
  "unread_alerts db u = int (length (filter (\<lambda>a. a_user_id a = u_id u \<and> \<not> read a) (alerts db)))"
  by (simp add: unread_alerts_def sql_filter_def sql_count_def py_or_scalar_count)

lemma upcoming_reminders_length:
  "upcoming_reminders db u =
     int (length (filter (\<lambda>r. r_user_id r = u_id u \<and> \<not> completed r \<and> enabled r) (reminders db)))"
  by (simp add: upcoming_reminders_def sql_filter_def sql_count_def py_or_scalar_count)

text \<open>
  Where no interaction of the user is dated after \<open>now\<close>, the query and the window of the
  specification count the same contacts.
\<close>

lemma visitors_today_spec_when_none_later:
  assumes "\<forall>i \<in> set (interactions db). i_user_id i = u_id u \<longrightarrow> dt_ge now (timestamp i)"
  shows "visitors_today db u now = visitors_spec db u now"
proof -
  have "{c. \<exists>i \<in> set (interactions db). i_user_id i = u_id u \<and> contact_id i = Some c
            \<and> dt_ge (timestamp i) (today_start now)} =
        set (List.map_filter contact_id
          (filter (\<lambda>i. i_user_id i = u_id u \<and> in_current_day now (timestamp i)) (interactions db)))"
    using assms by (auto simp: set_map_filter in_current_day_def)
  then show ?thesis
    by (simp add: visitors_today_card visitors_spec_def)
qed

subsection \<open>Claims\<close>

text \<open>
  C1. The claim bounds the window of \<open>visitors\<close> by the \<open>now\<close> instant: interactions
  dated after \<open>now\<close> are not counted. The query only has the lower bound
  \<open>timestamp >= today_start\<close>: for user 1 with a single interaction dated 18:30 of the
  current day, asked at 12:00, the route answers \<open>visitors = 1\<close> while the window of the
  claim holds no interaction.
\<close>

theorem visitors_counts_interaction_after_now:
  "map_of (get_dashboard_stats later_today_db \<lparr>u_id = 1\<rparr> noon) ''visitors'' = Some 1
   \<and> visitors_spec later_today_db \<lparr>u_id = 1\<rparr> noon = 0"
  by (simp add: stats_eval example_eval visitors_spec_def in_current_day_def)

subsection \<open>Rows of other users\<close>

lemma mset_filter_agree:
  assumes "filter_mset P (mset xs) = filter_mset P (mset ys)" and "\<And>x. Q x \<Longrightarrow> P x"
  shows "mset (filter Q xs) = mset (filter Q ys)"
proof -
  have "\<And>zs. mset (filter Q zs) = filter_mset Q (filter_mset P (mset zs))"
    using assms(2) by (auto simp: filter_filter_mset intro: filter_mset_cong)
  then show ?thesis using assms(1) by simp
qed

lemma length_filter_agree:
  assumes "filter_mset P (mset xs) = filter_mset P (mset ys)" and "\<And>x. Q x \<Longrightarrow> P x"
  shows "length (filter Q xs) = length (filter Q ys)"
  using mset_filter_agree[OF assms] by (rule mset_eq_length)

lemma set_filter_agree:
  assumes "filter_mset P (mset xs) = filter_mset P (mset ys)" and "\<And>x. Q x \<Longrightarrow> P x"
  shows "set (filter Q xs) = set (filter Q ys)"
  using mset_filter_agree[OF assms] by (rule mset_eq_setD)

lemma visitors_today_agree:
  assumes "filter_mset (\<lambda>i. i_user_id i = u_id u) (mset (interactions db1)) =
           filter_mset (\<lambda>i. i_user_id i = u_id u) (mset (interactions db2))"
  shows "visitors_today db1 u now = visitors_today db2 u now"
proof -
  let ?Q = "\<lambda>i. i_user_id i = u_id u \<and> contact_id i \<noteq> None \<and> dt_ge (timestamp i) (today_start now)"
  have "set (filter ?Q (interactions db1)) = set (filter ?Q (interactions db2))"
    by (rule set_filter_agree[OF assms]) simp
  then have "set (List.map_filter contact_id (filter ?Q (interactions db1))) =
             set (List.map_filter contact_id (filter ?Q (interactions db2)))"
    by (simp only: set_map_filter)
  then show ?thesis
    by (simp add: visitors_today_def sql_filter_def sql_count_distinct_def py_or_scalar_count
        length_remdups_card_conv)
qed

text \<open>
  C3. Two databases that hold the same rows of the requesting user (as multisets, table by
  table) and any rows of other users give the same dashboard for that user at the same
  instant; \<open>unreadAlerts\<close> is the number of the user's own alerts with \<open>read = false\<close>.
\<close>

theorem dashboard_user_isolation:
  assumes "filter_mset (\<lambda>i. i_user_id i = u_id u) (mset (interactions db1)) =
           filter_mset (\<lambda>i. i_user_id i = u_id u) (mset (interactions db2))"
      and "filter_mset (\<lambda>a. a_user_id a = u_id u) (mset (alerts db1)) =
           filter_mset (\<lambda>a. a_user_id a = u_id u) (mset (alerts db2))"
      and "filter_mset (\<lambda>r. r_user_id r = u_id u) (mset (reminders db1)) =
           filter_mset (\<lambda>r. r_user_id r = u_id u) (mset (reminders db2))"
  shows "get_dashboard_stats db1 u now = get_dashboard_stats db2 u now
         \<and> map_of (get_dashboard_stats db1 u now) ''unreadAlerts'' =
             Some (int (length (filter (\<lambda>a. a_user_id a = u_id u \<and> \<not> read a) (alerts db1))))"
proof -
  have v: "visitors_today db1 u now = visitors_today db2 u now"
    by (rule visitors_today_agree[OF assms(1)])
  have "length (filter (\<lambda>i. i_user_id i = u_id u) (interactions db1)) =
        length (filter (\<lambda>i. i_user_id i = u_id u) (interactions db2))"
    by (rule length_filter_agree[OF assms(1)]) simp
  then have c: "total_conversations db1 u = total_conversations db2 u"
    by (simp add: total_conversations_length)
  have "length (filter (\<lambda>a. a_user_id a = u_id u \<and> \<not> read a) (alerts db1)) =
        length (filter (\<lambda>a. a_user_id a = u_id u \<and> \<not> read a) (alerts db2))"
    by (rule length_filter_agree[OF assms(2)]) simp
  then have a: "unread_alerts db1 u = unread_alerts db2 u"
    by (simp add: unread_alerts_length)
  have "length (filter (\<lambda>r. r_user_id r = u_id u \<and> \<not> completed r \<and> enabled r) (reminders db1)) =
        length (filter (\<lambda>r. r_user_id r = u_id u \<and> \<not> completed r \<and> enabled r) (reminders db2))"
    by (rule length_filter_agree[OF assms(3)]) simp
  then have r: "upcoming_reminders db1 u = upcoming_reminders db2 u"
    by (simp add: upcoming_reminders_length)
  have "get_dashboard_stats db1 u now = get_dashboard_stats db2 u now"
    by (simp add: get_dashboard_stats_def v c a r)
  moreover have "map_of (get_dashboard_stats db1 u now) ''unreadAlerts'' =
      Some (int (length (filter (\<lambda>a. a_user_id a = u_id u \<and> \<not> read a) (alerts db1))))"
    by (simp add: get_dashboard_stats_def unread_alerts_length)
  ultimately show ?thesis by (rule conjI)
qed

theorem dashboard_user_isolation_witness:
  "filter_mset (\<lambda>i. i_user_id i = u_id \<lparr>u_id = 1\<rparr>)
     (mset (interactions (db_union other_users_rows scenario_db))) =
   filter_mset (\<lambda>i. i_user_id i = u_id \<lparr>u_id = 1\<rparr>) (mset (interactions scenario_db))
   \<and> filter_mset (\<lambda>a. a_user_id a = u_id \<lparr>u_id = 1\<rparr>)
     (mset (alerts (db_union other_users_rows scenario_db))) =
   filter_mset (\<lambda>a. a_user_id a = u_id \<lparr>u_id = 1\<rparr>) (mset (alerts scenario_db))
   \<and> filter_mset (\<lambda>r. r_user_id r = u_id \<lparr>u_id = 1\<rparr>)
     (mset (reminders (db_union other_users_rows scenario_db))) =
   filter_mset (\<lambda>r. r_user_id r = u_id \<lparr>u_id = 1\<rparr>) (mset (reminders scenario_db))
   \<and> get_dashboard_stats (db_union other_users_rows scenario_db) \<lparr>u_id = 1\<rparr> noon =
     get_dashboard_stats scenario_db \<lparr>u_id = 1\<rparr> noon
   \<and> map_of (get_dashboard_stats (db_union other_users_rows scenario_db) \<lparr>u_id = 1\<rparr> noon)
       ''unreadAlerts'' = Some 0"
proof -
  let ?u = "\<lparr>u_id = 1\<rparr>" and ?db = "db_union other_users_rows scenario_db"
  have h1: "filter_mset (\<lambda>i. i_user_id i = u_id ?u) (mset (interactions ?db)) =
      filter_mset (\<lambda>i. i_user_id i = u_id ?u) (mset (interactions scenario_db))"
    by (simp add: example_eval)
  have h2: "filter_mset (\<lambda>a. a_user_id a = u_id ?u) (mset (alerts ?db)) =
      filter_mset (\<lambda>a. a_user_id a = u_id ?u) (mset (alerts scenario_db))"
    by (simp add: example_eval)
  have h3: "filter_mset (\<lambda>r. r_user_id r = u_id ?u) (mset (reminders ?db)) =
      filter_mset (\<lambda>r. r_user_id r = u_id ?u) (mset (reminders scenario_db))"
    by (simp add: example_eval)
  have n: "int (length (filter (\<lambda>a. a_user_id a = u_id ?u \<and> \<not> read a) (alerts ?db))) = 0"
    by (simp add: example_eval)
  note iso = dashboard_user_isolation[OF h1 h2 h3, of noon]
  note c1 = iso[THEN conjunct1] and c2 = iso[THEN conjunct2, unfolded n]
  show ?thesis by (intro conjI h1 h2 h3 c1 c2)
qed

text \<open>
  C4. \<open>conversations\<close> is the number of all interactions of the user, whatever their date
  and whatever the instant of the request. In the scenario of the specification (three
  interactions today, two of them with different contacts and one without contact, and two
  from yesterday with contacts) the route answers \<open>visitors = 2\<close> and \<open>conversations = 5\<close>.
\<close>

theorem conversations_counts_all_time:
  "map_of (get_dashboard_stats db u now) ''conversations'' =
     Some (int (length (filter (\<lambda>i. i_user_id i = u_id u) (interactions db))))
   \<and> map_of (get_dashboard_stats scenario_db \<lparr>u_id = 1\<rparr> noon) ''visitors'' = Some 2
   \<and> map_of (get_dashboard_stats scenario_db \<lparr>u_id = 1\<rparr> noon) ''conversations'' = Some 5"
proof -
  have "map_of (get_dashboard_stats db u now) ''conversations'' =
     Some (int (length (filter (\<lambda>i. i_user_id i = u_id u) (interactions db))))"
    by (simp add: get_dashboard_stats_def total_conversations_length)
  moreover have "map_of (get_dashboard_stats scenario_db \<lparr>u_id = 1\<rparr> noon) ''visitors'' = Some 2"
    by (simp add: stats_eval example_eval)
  moreover have "map_of (get_dashboard_stats scenario_db \<lparr>u_id = 1\<rparr> noon) ''conversations'' = Some 5"
    by (simp add: stats_eval example_eval)
  ultimately show ?thesis by simp
qed

text \<open>
  C5. \<open>upcomingReminders\<close> is the number of the user's reminders that are not completed
  and are enabled; adding a reminder that is not enabled, completed or not, leaves it as it
  was.
\<close>

theorem upcoming_reminders_incomplete_and_enabled:
  "map_of (get_dashboard_stats db u now) ''upcomingReminders'' =
     Some (int (length (filter (\<lambda>r. r_user_id r = u_id u \<and> \<not> completed r \<and> enabled r)
       (reminders db))))
   \<and> (\<not> enabled r \<longrightarrow>
        map_of (get_dashboard_stats (db\<lparr>reminders := r # reminders db\<rparr>) u now) ''upcomingReminders'' =
        map_of (get_dashboard_stats db u now) ''upcomingReminders'')"
  by (simp add: get_dashboard_stats_def upcoming_reminders_length)

theorem upcoming_reminders_incomplete_and_enabled_witness:
  "\<not> enabled \<lparr>r_id = 9, r_user_id = 1, completed = False, enabled = False\<rparr>
   \<and> map_of (get_dashboard_stats scenario_db \<lparr>u_id = 1\<rparr> noon) ''upcomingReminders'' = Some 1
   \<and> map_of (get_dashboard_stats
        (scenario_db\<lparr>reminders :=
           \<lparr>r_id = 9, r_user_id = 1, completed = False, enabled = False\<rparr> # reminders scenario_db\<rparr>)
        \<lparr>u_id = 1\<rparr> noon) ''upcomingReminders'' = Some 1"
  using upcoming_reminders_incomplete_and_enabled[of scenario_db "\<lparr>u_id = 1\<rparr>" noon
      "\<lparr>r_id = 9, r_user_id = 1, completed = False, enabled = False\<rparr>"]
  by (simp add: example_eval)

text \<open>
  C6. The result has exactly the four keys, in the order written, each with an integer that
  is not negative; a count is 0 when no row passes its filter, and a user without
  interactions, alerts and reminders gets 0 four times.
\<close>

theorem dashboard_result_shape:
  "map fst (get_dashboard_stats db u now) =
     [''visitors'', ''conversations'', ''unreadAlerts'', ''upcomingReminders'']
   \<and> (\<forall>kv \<in> set (get_dashboard_stats db u now). 0 \<le> snd kv)
   \<and> (filter (\<lambda>i. i_user_id i = u_id u \<and> contact_id i \<noteq> None
                 \<and> dt_ge (timestamp i) (today_start now)) (interactions db) = []
        \<longrightarrow> map_of (get_dashboard_stats db u now) ''visitors'' = Some 0)
   \<and> (filter (\<lambda>i. i_user_id i = u_id u) (interactions db) = []
        \<longrightarrow> map_of (get_dashboard_stats db u now) ''conversations'' = Some 0)
   \<and> (filter (\<lambda>a. a_user_id a = u_id u \<and> \<not> read a) (alerts db) = []
        \<longrightarrow> map_of (get_dashboard_stats db u now) ''unreadAlerts'' = Some 0)
   \<and> (filter (\<lambda>r. r_user_id r = u_id u \<and> \<not> completed r \<and> enabled r) (reminders db) = []
        \<longrightarrow> map_of (get_dashboard_stats db u now) ''upcomingReminders'' = Some 0)
   \<and> (filter (\<lambda>i. i_user_id i = u_id u) (interactions db) = []
        \<and> filter (\<lambda>a. a_user_id a = u_id u) (alerts db) = []
        \<and> filter (\<lambda>r. r_user_id r = u_id u) (reminders db) = []
        \<longrightarrow> get_dashboard_stats db u now =
            [(''visitors'', 0), (''conversations'', 0), (''unreadAlerts'', 0),
             (''upcomingReminders'', 0)])"
proof -
  have keys: "map fst (get_dashboard_stats db u now) =
     [''visitors'', ''conversations'', ''unreadAlerts'', ''upcomingReminders'']"
    by (simp add: get_dashboard_stats_def)
  have nonneg: "\<forall>kv \<in> set (get_dashboard_stats db u now). 0 \<le> snd kv"
    by (simp add: get_dashboard_stats_def visitors_today_card total_conversations_length
        unread_alerts_length upcoming_reminders_length)
  have vis: "filter (\<lambda>i. i_user_id i = u_id u \<and> contact_id i \<noteq> None
                 \<and> dt_ge (timestamp i) (today_start now)) (interactions db) = []
        \<longrightarrow> map_of (get_dashboard_stats db u now) ''visitors'' = Some 0"
    by (simp add: get_dashboard_stats_def visitors_today_def sql_filter_def
        sql_count_distinct_def py_or_def scalar_def map_filter_def)
  have conv: "filter (\<lambda>i. i_user_id i = u_id u) (interactions db) = []
        \<longrightarrow> map_of (get_dashboard_stats db u now) ''conversations'' = Some 0"
    by (simp add: get_dashboard_stats_def total_conversations_length)
  have al: "filter (\<lambda>a. a_user_id a = u_id u \<and> \<not> read a) (alerts db) = []
        \<longrightarrow> map_of (get_dashboard_stats db u now) ''unreadAlerts'' = Some 0"
    by (simp add: get_dashboard_stats_def unread_alerts_length)
  have rem: "filter (\<lambda>r. r_user_id r = u_id u \<and> \<not> completed r \<and> enabled r) (reminders db) = []
        \<longrightarrow> map_of (get_dashboard_stats db u now) ''upcomingReminders'' = Some 0"
    by (simp add: get_dashboard_stats_def upcoming_reminders_length)
  have none: "filter (\<lambda>i. i_user_id i = u_id u) (interactions db) = []
        \<and> filter (\<lambda>a. a_user_id a = u_id u) (alerts db) = []
        \<and> filter (\<lambda>r. r_user_id r = u_id u) (reminders db) = []
        \<longrightarrow> get_dashboard_stats db u now =
            [(''visitors'', 0), (''conversations'', 0), (''unreadAlerts'', 0),
             (''upcomingReminders'', 0)]"
  proof
    assume h: "filter (\<lambda>i. i_user_id i = u_id u) (interactions db) = []
        \<and> filter (\<lambda>a. a_user_id a = u_id u) (alerts db) = []
        \<and> filter (\<lambda>r. r_user_id r = u_id u) (reminders db) = []"
    then have i: "\<forall>x \<in> set (interactions db). i_user_id x \<noteq> u_id u"
      and a: "\<forall>x \<in> set (alerts db). a_user_id x \<noteq> u_id u"
      and r: "\<forall>x \<in> set (reminders db). r_user_id x \<noteq> u_id u"
      by (simp_all add: filter_empty_conv)
    have "visitors_today db u now = 0"
      using i by (simp add: visitors_today_card)
    moreover have "total_conversations db u = 0"
      using h by (simp add: total_conversations_length)
    moreover have "unread_alerts db u = 0"
      using a by (simp add: unread_alerts_length filter_empty_conv)
    moreover have "upcoming_reminders db u = 0"
      using r by (simp add: upcoming_reminders_length filter_empty_conv)
    ultimately show "get_dashboard_stats db u now =
            [(''visitors'', 0), (''conversations'', 0), (''unreadAlerts'', 0),
             (''upcomingReminders'', 0)]"
      by (simp add: get_dashboard_stats_def)
  qed
  show ?thesis by (intro conjI keys nonneg vis conv al rem none)
qed

theorem dashboard_result_shape_witness:
  "filter (\<lambda>i. i_user_id i = u_id \<lparr>u_id = 3\<rparr>)
     (interactions (db_union other_users_rows scenario_db)) = []
   \<and> filter (\<lambda>a. a_user_id a = u_id \<lparr>u_id = 3\<rparr>) (alerts (db_union other_users_rows scenario_db)) = []
   \<and> filter (\<lambda>r. r_user_id r = u_id \<lparr>u_id = 3\<rparr>)
     (reminders (db_union other_users_rows scenario_db)) = []
   \<and> get_dashboard_stats (db_union other_users_rows scenario_db) \<lparr>u_id = 3\<rparr> noon =
       [(''visitors'', 0), (''conversations'', 0), (''unreadAlerts'', 0), (''upcomingReminders'', 0)]"
proof -
  let ?u = "\<lparr>u_id = 3\<rparr>" and ?db = "db_union other_users_rows scenario_db"
  have h1: "filter (\<lambda>i. i_user_id i = u_id ?u) (interactions ?db) = []"
    by (simp add: example_eval)
  have h2: "filter (\<lambda>a. a_user_id a = u_id ?u) (alerts ?db) = []"
    by (simp add: example_eval)
  have h3: "filter (\<lambda>r. r_user_id r = u_id ?u) (reminders ?db) = []"
    by (simp add: example_eval)
  note shape = dashboard_result_shape[of ?db ?u noon]
  from shape h1 h2 h3 have zero: "get_dashboard_stats ?db ?u noon =
       [(''visitors'', 0), (''conversations'', 0), (''unreadAlerts'', 0), (''upcomingReminders'', 0)]"
    by blast
  show ?thesis by (intro conjI h1 h2 h3 zero)
qed

section \<open>Properties of the migration\<close>

lemmas prog_defs = ret_def raise_def bnd_def try_except_def try_finally_def print_def

lemmas session_defs = SessionLocal_def execute_select_def execute_alter_def commit_def
  rollback_def close_def view_def

lemma fetchone_None_iff: "fetchone rows = None \<longleftrightarrow> rows = []"
  by (cases rows) (simp_all add: fetchone_def)

lemma select_rows_empty_iff:
  "filter (\<lambda>r. r = mood_column) cols = [] \<longleftrightarrow> mood_column \<notin> set cols"
  by (auto simp: filter_empty_conv)

subsection \<open>The five ways \<open>remove_mood_column\<close> can go\<close>











subsection \<open>The script around it\<close>













section \<open>Properties of the verification script\<close>

subsection \<open>The string operations\<close>

lemma startswith_iff: "startswith s p \<longleftrightarrow> (\<exists>q. s = p @ q)"
  by (induction s p rule: startswith.induct) auto

lemma str_in_iff: "str_in sub s \<longleftrightarrow> (\<exists>p q. s = p @ sub @ q)"
proof (induction s)
  case Nil
  show ?case by auto
next
  case (Cons c cs)
  show ?case
  proof
    assume "str_in sub (c # cs)"
    then consider "startswith (c # cs) sub" | "str_in sub cs" by auto
    then show "\<exists>p q. c # cs = p @ sub @ q"
    proof cases
      case 1
      then obtain q where "c # cs = sub @ q" by (auto simp: startswith_iff)
      then have "c # cs = [] @ sub @ q" by simp
      then show ?thesis by blast
    next
      case 2
      then obtain p q where "cs = p @ sub @ q" using Cons.IH by blast
      then have "c # cs = (c # p) @ sub @ q" by simp
      then show ?thesis by blast
    qed
  next
    assume "\<exists>p q. c # cs = p @ sub @ q"
    then obtain p q where e: "c # cs = p @ sub @ q" by blast
    show "str_in sub (c # cs)"
    proof (cases p)
      case Nil
      with e have "startswith (c # cs) sub" by (auto simp: startswith_iff)
      then show ?thesis by simp
    next
      case (Cons a p')
      with e have "cs = p' @ sub @ q" by simp
      then have "str_in sub cs" using Cons.IH by blast
      then show ?thesis by simp
    qed
  qed
qed

lemma lower_append: "lower (a @ b) = lower a @ lower b"
  by (simp add: lower_def)

lemma lower_mood: "lower ''mood'' = ''mood''"
  by (simp add: lower_def lower_char_def)

text \<open>The first test of the loop follows from the second one.\<close>

lemma quoted_implies_mentions:
  assumes "str_in ([c] @ ''mood'' @ [c]) line"
  shows "str_in ''mood'' (lower line)"
proof -
  from assms obtain p q where "line = p @ ([c] @ ''mood'' @ [c]) @ q"
    by (auto simp: str_in_iff)
  then have "line = (p @ [c]) @ ''mood'' @ ([c] @ q)" by simp
  then have "lower line = lower (p @ [c]) @ ''mood'' @ lower ([c] @ q)"
    by (simp only: lower_append lower_mood)
  then show ?thesis unfolding str_in_iff by blast
qed

lemma set_find_mood_refs:
  "set (find_mood_refs content) =
     {(i, strip line) | i line. (i, line) \<in> set (enumerate 1 (str_split nl content))
        \<and> \<not> startswith (strip line) ''#''
        \<and> (str_in ([dquote] @ ''mood'' @ [dquote]) line
            \<or> str_in ([squote] @ ''mood'' @ [squote]) line)}"
  unfolding find_mood_refs_def
  using quoted_implies_mentions[of dquote] quoted_implies_mentions[of squote]
  by auto

text \<open>
  C10. Line \<open>i\<close> of a file is flagged exactly when its stripped text does not start with
  \<open>#\<close> and the line contains the token between double quotes or between single quotes. A
  line that holds the token only as a bare identifier, such as an attribute access, is not
  flagged, nor is a comment line that quotes it.
\<close>

theorem find_mood_refs_flags_quoted_only:
  "((i, l) \<in> set (find_mood_refs content) \<longleftrightarrow>
      (\<exists>line. 1 \<le> i \<and> i \<le> length (str_split nl content)
         \<and> line = str_split nl content ! (i - 1) \<and> l = strip line
         \<and> \<not> (\<exists>q. strip line = ''#'' @ q)
         \<and> (\<exists>p q. line = p @ [dquote] @ ''mood'' @ [dquote] @ q
                 \<or> line = p @ [squote] @ ''mood'' @ [squote] @ q)))
   \<and> find_mood_refs (''interaction.mood = mood'' @ [nl] @ ''  return mood.lower()'') = []
   \<and> find_mood_refs (''  # d['' @ [squote] @ ''mood'' @ [squote] @ ''] is gone'') = []
   \<and> find_mood_refs (''x = 1'' @ [nl] @ '' m = d['' @ [squote] @ ''mood'' @ [squote] @ ''] '') =
       [(2, ''m = d['' @ [squote] @ ''mood'' @ [squote] @ '']'')]"
proof -
  have general: "(i, l) \<in> set (find_mood_refs content) \<longleftrightarrow>
      (\<exists>line. 1 \<le> i \<and> i \<le> length (str_split nl content)
         \<and> line = str_split nl content ! (i - 1) \<and> l = strip line
         \<and> \<not> (\<exists>q. strip line = ''#'' @ q)
         \<and> (\<exists>p q. line = p @ [dquote] @ ''mood'' @ [dquote] @ q
                 \<or> line = p @ [squote] @ ''mood'' @ [squote] @ q))"
    unfolding set_find_mood_refs
    by (auto simp: in_set_enumerate_eq startswith_iff str_in_iff)
  have bare: "find_mood_refs (''interaction.mood = mood'' @ [nl] @ ''  return mood.lower()'') = []"
    by (simp add: find_mood_refs_def nl_def dquote_def squote_def enumerate_eq_zip)
  have comment: "find_mood_refs (''  # d['' @ [squote] @ ''mood'' @ [squote] @ ''] is gone'') = []"
    by (simp add: find_mood_refs_def nl_def dquote_def squote_def enumerate_eq_zip
        strip_def isspace_def)
  have quoted: "find_mood_refs (''x = 1'' @ [nl] @ '' m = d['' @ [squote] @ ''mood'' @ [squote] @ ''] '') =
       [(2, ''m = d['' @ [squote] @ ''mood'' @ [squote] @ '']'')]"
    by (simp add: find_mood_refs_def nl_def dquote_def squote_def enumerate_eq_zip
        strip_def isspace_def lower_def lower_char_def char_of_def bit_Suc_0_iff)
  show ?thesis by (intro conjI general bare comment quoted)
qed

subsection \<open>Isolated programs\<close>

lemma same_env_refl: "same_env w w"
  by (simp add: same_env_def)

lemma same_env_sym: "same_env w w' \<Longrightarrow> same_env w' w"
  by (simp add: same_env_def)

lemma same_env_trans: "same_env w w' \<Longrightarrow> same_env w' w'' \<Longrightarrow> same_env w w''"
  by (simp add: same_env_def)

lemma isolatedI:
  assumes "\<And>w. \<exists>x out. \<forall>w2. same_env w w2 \<longrightarrow>
        (\<exists>w3. m w2 = (x, w3) \<and> same_env w2 w3 \<and> stdout w3 = stdout w2 @ out)"
  shows "isolated m"
  using assms by (simp add: isolated_def)

lemma isolatedE:
  assumes "isolated m"
  obtains x out where "\<forall>w2. same_env w w2 \<longrightarrow>
        (\<exists>w3. m w2 = (x, w3) \<and> same_env w2 w3 \<and> stdout w3 = stdout w2 @ out)"
  using assms unfolding isolated_def by blast

text \<open>What an isolated program does in a world is what it does in any world of the same environment.\<close>

lemma isolated_run:
  assumes "isolated m" and "same_env w w2"
  shows "fst (m w2) = fst (m w) \<and> same_env w2 (snd (m w2))
         \<and> stdout (snd (m w2)) = stdout w2 @ out_of m w"
proof -
  obtain x out where h0: "\<forall>w2. same_env w w2 \<longrightarrow>
        (\<exists>w3. m w2 = (x, w3) \<and> same_env w2 w3 \<and> stdout w3 = stdout w2 @ out)"
    using assms(1) by (rule isolatedE)
  note h = h0[rule_format]
  from h[OF same_env_refl] obtain w3 where a: "m w = (x, w3)" "stdout w3 = stdout w @ out"
    by blast
  then have o: "out_of m w = out" by (simp add: out_of_def)
  from h[OF assms(2)] obtain w4 where "m w2 = (x, w4)" "same_env w2 w4"
    "stdout w4 = stdout w2 @ out"
    by blast
  with a o show ?thesis by simp
qed

lemma isolated_ret: "isolated (ret x)"
  by (rule isolatedI) (auto simp: ret_def same_env_refl)

lemma isolated_raise: "isolated (raise e)"
  by (rule isolatedI) (auto simp: raise_def same_env_refl)

lemma isolated_print: "isolated (print l)"
  by (rule isolatedI) (auto simp: print_def same_env_def)

lemma isolated_bnd:
  assumes "isolated m" and "\<And>x. isolated (f x)"
  shows "isolated (bnd m f)"
proof (rule isolatedI)
  fix w
  obtain x out where h0: "\<forall>w2. same_env w w2 \<longrightarrow>
        (\<exists>w3. m w2 = (x, w3) \<and> same_env w2 w3 \<and> stdout w3 = stdout w2 @ out)"
    using assms(1) by (rule isolatedE)
  note h = h0[rule_format]
  show "\<exists>x out. \<forall>w2. same_env w w2 \<longrightarrow>
        (\<exists>w3. bnd m f w2 = (x, w3) \<and> same_env w2 w3 \<and> stdout w3 = stdout w2 @ out)"
  proof (cases x)
    case (Inl e)
    have "\<forall>w2. same_env w w2 \<longrightarrow>
        (\<exists>w3. bnd m f w2 = (Inl e, w3) \<and> same_env w2 w3 \<and> stdout w3 = stdout w2 @ out)"
      using h Inl by (fastforce simp: bnd_def)
    then show ?thesis by blast
  next
    case (Inr v)
    from h[OF same_env_refl] obtain w1 where w1: "m w = (x, w1)" "same_env w w1" by blast
    obtain y out' where g0: "\<forall>w2. same_env w1 w2 \<longrightarrow>
        (\<exists>w3. f v w2 = (y, w3) \<and> same_env w2 w3 \<and> stdout w3 = stdout w2 @ out')"
      using assms(2)[of v] by (rule isolatedE)
    note g = g0[rule_format]
    have "\<forall>w2. same_env w w2 \<longrightarrow>
        (\<exists>w3. bnd m f w2 = (y, w3) \<and> same_env w2 w3 \<and> stdout w3 = stdout w2 @ (out @ out'))"
    proof (intro allI impI)
      fix w2 assume s: "same_env w w2"
      from h[OF s] obtain w3 where w3: "m w2 = (x, w3)" "same_env w2 w3"
        "stdout w3 = stdout w2 @ out" by blast
      have "same_env w1 w3"
        using w1(2) s w3(2) by (meson same_env_sym same_env_trans)
      from g[OF this] obtain w4 where w4: "f v w3 = (y, w4)" "same_env w3 w4"
        "stdout w4 = stdout w3 @ out'" by blast
      have "bnd m f w2 = (y, w4)" using w3(1) w4(1) Inr by (simp add: bnd_def)
      moreover have "same_env w2 w4" using w3(2) w4(2) by (rule same_env_trans)
      moreover have "stdout w4 = stdout w2 @ (out @ out')" using w3(3) w4(3) by simp
      ultimately show "\<exists>w3. bnd m f w2 = (y, w3) \<and> same_env w2 w3
          \<and> stdout w3 = stdout w2 @ (out @ out')" by blast
    qed
    then show ?thesis by blast
  qed
qed

lemma isolated_try_except:
  assumes "isolated m" and "\<And>e. isolated (h e)"
  shows "isolated (try_except m h)"
proof (rule isolatedI)
  fix w
  obtain x out where h0: "\<forall>w2. same_env w w2 \<longrightarrow>
        (\<exists>w3. m w2 = (x, w3) \<and> same_env w2 w3 \<and> stdout w3 = stdout w2 @ out)"
    using assms(1) by (rule isolatedE)
  note h = h0[rule_format]
  show "\<exists>x out. \<forall>w2. same_env w w2 \<longrightarrow>
        (\<exists>w3. try_except m h w2 = (x, w3) \<and> same_env w2 w3 \<and> stdout w3 = stdout w2 @ out)"
  proof (cases x)
    case (Inr v)
    have "\<forall>w2. same_env w w2 \<longrightarrow>
        (\<exists>w3. try_except m h w2 = (Inr v, w3) \<and> same_env w2 w3 \<and> stdout w3 = stdout w2 @ out)"
      using h Inr by (fastforce simp: try_except_def)
    then show ?thesis by blast
  next
    case (Inl e)
    from h[OF same_env_refl] obtain w1 where w1: "m w = (x, w1)" "same_env w w1" by blast
    obtain y out' where g0: "\<forall>w2. same_env w1 w2 \<longrightarrow>
        (\<exists>w3. h e w2 = (y, w3) \<and> same_env w2 w3 \<and> stdout w3 = stdout w2 @ out')"
      using assms(2)[of e] by (rule isolatedE)
    note g = g0[rule_format]
    have "\<forall>w2. same_env w w2 \<longrightarrow>
        (\<exists>w3. try_except m h w2 = (y, w3) \<and> same_env w2 w3
           \<and> stdout w3 = stdout w2 @ (out @ out'))"
    proof (intro allI impI)
      fix w2 assume s: "same_env w w2"
      from h[OF s] obtain w3 where w3: "m w2 = (x, w3)" "same_env w2 w3"
        "stdout w3 = stdout w2 @ out" by blast
      have "same_env w1 w3"
        using w1(2) s w3(2) by (meson same_env_sym same_env_trans)
      from g[OF this] obtain w4 where w4: "h e w3 = (y, w4)" "same_env w3 w4"
        "stdout w4 = stdout w3 @ out'" by blast
      have "try_except m h w2 = (y, w4)" using w3(1) w4(1) Inl by (simp add: try_except_def)
      moreover have "same_env w2 w4" using w3(2) w4(2) by (rule same_env_trans)
      moreover have "stdout w4 = stdout w2 @ (out @ out')" using w3(3) w4(3) by simp
      ultimately show "\<exists>w3. try_except m h w2 = (y, w3) \<and> same_env w2 w3
          \<and> stdout w3 = stdout w2 @ (out @ out')" by blast
    qed
    then show ?thesis by blast
  qed
qed

lemma isolated_for_each:
  assumes "\<And>x acc. isolated (body x acc)"
  shows "isolated (for_each xs body acc)"
proof (induction xs arbitrary: acc)
  case Nil
  show ?case by (simp add: isolated_ret)
next
  case (Cons x xs)
  show ?case by (simp add: isolated_bnd assms Cons.IH)
qed

text \<open>A program that only reads the environment.\<close>

lemma isolated_reader:
  assumes "\<And>w. m w = (r w, w)" and "\<And>w w2. same_env w w2 \<Longrightarrow> r w2 = r w"
  shows "isolated m"
proof (rule isolatedI)
  fix w
  have "\<forall>w2. same_env w w2 \<longrightarrow>
      (\<exists>w3. m w2 = (r w, w3) \<and> same_env w2 w3 \<and> stdout w3 = stdout w2 @ [])"
    using assms by (simp add: same_env_refl)
  then show "\<exists>x out. \<forall>w2. same_env w w2 \<longrightarrow>
      (\<exists>w3. m w2 = (x, w3) \<and> same_env w2 w3 \<and> stdout w3 = stdout w2 @ out)"
    by blast
qed

lemma isolated_get_conversation_collection: "isolated get_conversation_collection"
  by (rule isolated_reader[where r = "\<lambda>w. case chroma_connect_fault w of
        Some e \<Rightarrow> Inl e | None \<Rightarrow> Inr (chroma_records w)"])
     (auto simp: get_conversation_collection_def same_env_def split: option.splits)

lemma isolated_collection_get: "isolated (collection_get c n)"
  by (rule isolated_reader[where r = "\<lambda>w. case chroma_get_fault w of
        Some e \<Rightarrow> Inl e | None \<Rightarrow> Inr (take n c)"])
     (auto simp: collection_get_def same_env_def split: option.splits)

lemma isolated_import_Interaction: "isolated import_Interaction"
  by (rule isolated_reader[where r = "\<lambda>w. case model_attrs w of
        Inl e \<Rightarrow> Inl e | Inr attrs \<Rightarrow> Inr attrs"])
     (auto simp: import_Interaction_def same_env_def split: sum.splits)

lemma isolated_read_file: "isolated (read_file p)"
  by (rule isolated_reader[where r = "\<lambda>w. case files w p of
        Inl e \<Rightarrow> Inl e | Inr content \<Rightarrow> Inr content"])
     (auto simp: read_file_def same_env_def split: sum.splits)

lemma isolated_has_mood_loop: "isolated (has_mood_loop ms)"
  by (induction ms rule: has_mood_loop.induct) (simp_all add: isolated_ret isolated_raise)

lemmas isolated_intros =
  isolated_ret isolated_raise isolated_print isolated_bnd isolated_try_except isolated_for_each
  isolated_get_conversation_collection isolated_collection_get isolated_import_Interaction
  isolated_read_file isolated_has_mood_loop

lemma isolated_check_chromadb_metadata: "isolated check_chromadb_metadata"
  unfolding check_chromadb_metadata_def
  by (intro isolated_intros) (simp_all add: isolated_intros)

lemma isolated_check_model_definition: "isolated check_model_definition"
  unfolding check_model_definition_def
  by (intro isolated_intros) (simp_all add: isolated_intros)

lemma isolated_check_file: "isolated (check_file p a)"
  unfolding check_file_def Let_def
  by (intro isolated_intros) (simp_all add: isolated_intros split: prod.splits)

lemma isolated_check_route_definitions: "isolated check_route_definitions"
  unfolding check_route_definitions_def
  by (intro isolated_intros isolated_check_file) (simp_all add: isolated_intros)


subsection \<open>Running isolated programs\<close>

text \<open>
  Since nothing an isolated program does depends on what ran before it, the outcome and
  the output of a sequence can be computed part by part, each part in the initial world.
\<close>

lemma bnd_run:
  assumes "isolated m" and "\<And>x. isolated (f x)"
  shows "fst (bnd m f w) = (case fst (m w) of Inl e \<Rightarrow> Inl e | Inr v \<Rightarrow> fst (f v w))"
    and "out_of (bnd m f) w =
           out_of m w @ (case fst (m w) of Inl e \<Rightarrow> [] | Inr v \<Rightarrow> out_of (f v) w)"
proof -
  obtain x w1 where mw: "m w = (x, w1)" by (cases "m w")
  from isolated_run[OF assms(1) same_env_refl, of w] mw
  have w1: "same_env w w1" "stdout w1 = stdout w @ out_of m w" by simp_all
  show "fst (bnd m f w) = (case fst (m w) of Inl e \<Rightarrow> Inl e | Inr v \<Rightarrow> fst (f v w))"
    using mw isolated_run[OF assms(2) w1(1)] by (cases x) (simp_all add: bnd_def)
  show "out_of (bnd m f) w =
           out_of m w @ (case fst (m w) of Inl e \<Rightarrow> [] | Inr v \<Rightarrow> out_of (f v) w)"
  proof (cases x)
    case (Inl e)
    then show ?thesis using mw by (simp add: bnd_def out_of_def)
  next
    case (Inr v)
    from isolated_run[OF assms(2) w1(1), of v]
    have "stdout (snd (f v w1)) = stdout w @ out_of m w @ out_of (f v) w"
      using w1(2) by simp
    then show ?thesis using mw Inr by (simp add: bnd_def out_of_def)
  qed
qed

lemma try_except_run:
  assumes "isolated m" and "\<And>e. isolated (h e)"
  shows "fst (try_except m h w) = (case fst (m w) of Inl e \<Rightarrow> fst (h e w) | Inr v \<Rightarrow> Inr v)"
    and "out_of (try_except m h) w =
           out_of m w @ (case fst (m w) of Inl e \<Rightarrow> out_of (h e) w | Inr v \<Rightarrow> [])"
proof -
  obtain x w1 where mw: "m w = (x, w1)" by (cases "m w")
  from isolated_run[OF assms(1) same_env_refl, of w] mw
  have w1: "same_env w w1" "stdout w1 = stdout w @ out_of m w" by simp_all
  show "fst (try_except m h w) = (case fst (m w) of Inl e \<Rightarrow> fst (h e w) | Inr v \<Rightarrow> Inr v)"
    using mw isolated_run[OF assms(2) w1(1)] by (cases x) (simp_all add: try_except_def)
  show "out_of (try_except m h) w =
           out_of m w @ (case fst (m w) of Inl e \<Rightarrow> out_of (h e) w | Inr v \<Rightarrow> [])"
  proof (cases x)
    case (Inr v)
    then show ?thesis using mw by (simp add: try_except_def out_of_def)
  next
    case (Inl e)
    from isolated_run[OF assms(2) w1(1), of e]
    have "stdout (snd (h e w1)) = stdout w @ out_of m w @ out_of (h e) w"
      using w1(2) by simp
    then show ?thesis using mw Inl by (simp add: try_except_def out_of_def)
  qed
qed

lemma ret_run: "fst (ret x w) = Inr x" "out_of (ret x) w = []"
  by (simp_all add: ret_def out_of_def)

lemma raise_run: "fst (raise e w) = Inl e" "out_of (raise e) w = []"
  by (simp_all add: raise_def out_of_def)

lemma print_run: "fst (print l w) = Inr ()" "out_of (print l) w = [l]"
  by (simp_all add: print_def out_of_def)

lemma get_conversation_collection_run:
  "fst (get_conversation_collection w) =
     (case chroma_connect_fault w of Some e \<Rightarrow> Inl e | None \<Rightarrow> Inr (chroma_records w))"
  "out_of get_conversation_collection w = []"
  by (simp_all add: get_conversation_collection_def out_of_def split: option.splits)

lemma collection_get_run:
  "fst (collection_get c n w) =
     (case chroma_get_fault w of Some e \<Rightarrow> Inl e | None \<Rightarrow> Inr (take n c))"
  "out_of (collection_get c n) w = []"
  by (simp_all add: collection_get_def out_of_def split: option.splits)

lemma import_Interaction_run:
  "fst (import_Interaction w) = model_attrs w" "out_of import_Interaction w = []"
  by (simp_all add: import_Interaction_def out_of_def split: sum.splits)

lemma read_file_run:
  "fst (read_file p w) = files w p" "out_of (read_file p) w = []"
  by (simp_all add: read_file_def out_of_def split: sum.splits)

lemma has_mood_loop_pure: "\<exists>x. \<forall>w. has_mood_loop ms w = (x, w)"
  by (induction ms rule: has_mood_loop.induct) (auto simp: ret_def raise_def)

lemma has_mood_loop_run:
  "out_of (has_mood_loop ms) w = []"
  using has_mood_loop_pure[of ms] by (auto simp: out_of_def)

lemma has_mood_loop_no_None:
  "None \<notin> set ms \<Longrightarrow> \<exists>b. fst (has_mood_loop ms w) = Inr b"
  by (induction ms rule: has_mood_loop.induct) (auto simp: ret_def)

lemma print_loop_run:
  "fst (for_each xs (\<lambda>x _. print (g x)) () w) = Inr ()"
  "out_of (for_each xs (\<lambda>x _. print (g x)) ()) w = map g xs"
  by (induction xs) (simp_all add: ret_run bnd_run isolated_intros print_run)

lemmas run_simps =
  bnd_run try_except_run ret_run raise_run print_run get_conversation_collection_run
  collection_get_run import_Interaction_run read_file_run has_mood_loop_run

lemma check_model_definition_run:
  "fst (check_model_definition w) =
     Inr (case model_attrs w of Inl e \<Rightarrow> False | Inr attrs \<Rightarrow> ''mood'' \<notin> set attrs)"
  "out_of check_model_definition w =
     Text (nl # ''3. Checking Model Definition...'') #
     (case model_attrs w of
        Inl e \<Rightarrow> [status Cross ''ERROR'' (str e)]
      | Inr attrs \<Rightarrow>
          if ''mood'' \<in> set attrs
          then [status Cross ''FAIL'' ''Interaction model still has mood attribute'']
          else [status Check ''PASS'' ''Interaction model does not have mood attribute''])"
  by (simp_all add: check_model_definition_def run_simps isolated_intros hasattr_def
      split: sum.splits)


subsection \<open>The four checks\<close>

lemma check_chromadb_metadata_returns: "\<exists>r. fst (check_chromadb_metadata w) = Inr r"
  by (auto simp add: check_chromadb_metadata_def run_simps isolated_intros
      split: sum.splits option.splits)

lemma check_chromadb_metadata_connect_fault:
  assumes "chroma_connect_fault w = Some e"
  shows "fst (check_chromadb_metadata w) = Inr False"
    and "status Cross ''ERROR'' (str e) \<in> set (out_of check_chromadb_metadata w)"
  using assms by (simp_all add: check_chromadb_metadata_def run_simps isolated_intros)

lemma check_chromadb_metadata_get_fault:
  assumes "chroma_connect_fault w = None" and "chroma_get_fault w = Some e"
  shows "fst (check_chromadb_metadata w) = Inr False"
    and "status Cross ''ERROR'' (str e) \<in> set (out_of check_chromadb_metadata w)"
  using assms by (simp_all add: check_chromadb_metadata_def run_simps isolated_intros)

lemma check_chromadb_metadata_no_exception:
  assumes "chroma_connect_fault w = None" and "chroma_get_fault w = None"
    and "None \<notin> set (take 5 (chroma_records w))"
  shows "fst (check_chromadb_metadata w) = Inr True"
proof -
  obtain b where "fst (has_mood_loop (take 5 (chroma_records w)) w) = Inr b"
    using has_mood_loop_no_None[OF assms(3)] by blast
  then show ?thesis
    using assms(1,2) by (simp add: check_chromadb_metadata_def run_simps isolated_intros)
qed

lemma print_refs_run:
  "fst (for_each xs (\<lambda>(line_num, line) _. print (Line_ref line_num (take 80 line))) () w) = Inr ()"
  "out_of (for_each xs (\<lambda>(line_num, line) _. print (Line_ref line_num (take 80 line))) ()) w =
     map (\<lambda>(line_num, line). Line_ref line_num (take 80 line)) xs"
  by (induction xs)
     (simp_all add: ret_run bnd_run isolated_intros print_run split: prod.splits)

lemma isolated_print_refs:
  "isolated (for_each xs (\<lambda>(line_num, line) _. print (Line_ref line_num (take 80 line))) ())"
  by (intro isolated_intros) (simp add: isolated_print split: prod.splits)

lemma check_file_run:
  "fst (check_file p a w) =
     Inr (case files w p of Inl e \<Rightarrow> False | Inr content \<Rightarrow> find_mood_refs content = [] \<and> a)"
  "out_of (check_file p a) w =
     (case files w p of
        Inl e \<Rightarrow> [status Cross ''ERROR'' (''checking '' @ p @ '': '' @ str e)]
      | Inr content \<Rightarrow>
          if find_mood_refs content \<noteq> []
          then status Warn ''WARNING'' (''Found mood references in '' @ p @ '':'') #
               map (\<lambda>(line_num, line). Line_ref line_num (take 80 line))
                 (take 3 (find_mood_refs content))
          else [])"
  by (simp_all add: check_file_def Let_def run_simps isolated_intros print_refs_run
      isolated_print_refs split: sum.splits)

lemma check_files_run:
  "fst (for_each ps check_file a w) = Inr (a \<and> list_all (file_clean w) ps)"
  "out_of (for_each ps check_file a) w = concat (map (\<lambda>p. out_of (check_file p True) w) ps)"
proof (induction ps arbitrary: a)
  case Nil
  {
    case 1 show ?case by (simp add: ret_run)
  next
    case 2 show ?case by (simp add: ret_run)
  }
next
  case (Cons p ps)
  {
    case 1
    show ?case
      by (auto simp add: bnd_run isolated_check_file isolated_for_each Cons.IH check_file_run
          file_clean_def split: sum.splits)
  next
    case 2
    show ?case
      by (simp add: bnd_run isolated_check_file isolated_for_each Cons.IH check_file_run)
  }
qed

lemma check_route_definitions_run:
  "fst (check_route_definitions w) = Inr (list_all (file_clean w) files_to_check)"
  "out_of check_route_definitions w =
     Text (nl # ''4. Checking Route Definitions...'') #
     concat (map (\<lambda>p. out_of (check_file p True) w) files_to_check) @
     (if list_all (file_clean w) files_to_check
      then [status Check ''PASS'' ''No mood references found in route files''] else [])"
  by (simp_all add: check_route_definitions_def run_simps isolated_intros isolated_check_file
      check_files_run)

lemma check_route_definitions_file_error:
  assumes "p \<in> set files_to_check" and "files w p = Inl e"
  shows "fst (check_route_definitions w) = Inr False"
    and "status Cross ''ERROR'' (''checking '' @ p @ '': '' @ str e)
           \<in> set (out_of check_route_definitions w)"
proof -
  have "\<not> file_clean w p" using assms(2) by (simp add: file_clean_def)
  then have "\<not> list_all (file_clean w) files_to_check"
    using assms(1) by (auto simp: list_all_iff)
  then show "fst (check_route_definitions w) = Inr False"
    by (simp add: check_route_definitions_run)
  have "status Cross ''ERROR'' (''checking '' @ p @ '': '' @ str e)
          \<in> set (out_of (check_file p True) w)"
    using assms(2) by (simp add: check_file_run)
  then show "status Cross ''ERROR'' (''checking '' @ p @ '': '' @ str e)
           \<in> set (out_of check_route_definitions w)"
    using assms(1) by (auto simp: check_route_definitions_run)
qed

lemma check_route_definitions_flagged:
  assumes "p \<in> set files_to_check" and "files w p = Inr content"
    and "find_mood_refs content \<noteq> []"
  shows "fst (check_route_definitions w) = Inr False"
    and "status Warn ''WARNING'' (''Found mood references in '' @ p @ '':'')
           \<in> set (out_of check_route_definitions w)"
proof -
  have "\<not> file_clean w p" using assms(2,3) by (simp add: file_clean_def)
  then have "\<not> list_all (file_clean w) files_to_check"
    using assms(1) by (auto simp: list_all_iff)
  then show "fst (check_route_definitions w) = Inr False"
    by (simp add: check_route_definitions_run)
  have "status Warn ''WARNING'' (''Found mood references in '' @ p @ '':'')
          \<in> set (out_of (check_file p True) w)"
    using assms(2,3) by (simp add: check_file_run)
  then show "status Warn ''WARNING'' (''Found mood references in '' @ p @ '':'')
           \<in> set (out_of check_route_definitions w)"
    using assms(1) by (auto simp: check_route_definitions_run)
qed

lemma check_database_schema_run:
  "fst (check_database_schema w) =
     (case db_fault w New_session of
        Some e \<Rightarrow> Inl e
      | None \<Rightarrow>
          (case db_fault w Close of
             Some e \<Rightarrow> Inl e
           | None \<Rightarrow> Inr (db_fault w Select = None \<and> mood_column \<notin> set (info_columns w))))"
  "out_of check_database_schema w =
     Text (nl # ''1. Checking Database Schema...'') #
     (case db_fault w New_session of
        Some e \<Rightarrow> []
      | None \<Rightarrow>
          [case db_fault w Select of
             Some e \<Rightarrow> status Cross ''ERROR'' (str e)
           | None \<Rightarrow>
               if mood_column \<in> set (info_columns w)
               then status Cross ''FAIL'' ''mood column still exists in database''
               else status Check ''PASS'' ''mood column removed from database''])"
  by (cases "db_fault w New_session"; cases "db_fault w Select"; cases "db_fault w Close";
      simp add: check_database_schema_def may_fail_def prog_defs session_defs fetchone_None_iff
        select_rows_empty_iff out_of_def)+

lemma check_database_schema_effect:
  "same_env w (snd (check_database_schema w))"
  "stdout (snd (check_database_schema w)) = stdout w @ out_of check_database_schema w"
  by (cases "db_fault w New_session"; cases "db_fault w Select"; cases "db_fault w Close";
      simp add: check_database_schema_def may_fail_def prog_defs session_defs fetchone_None_iff
        select_rows_empty_iff out_of_def same_env_def)+

lemma isolated_check_database_schema: "isolated check_database_schema"
proof (rule isolatedI)
  fix w
  have "\<forall>w2. same_env w w2 \<longrightarrow>
      (\<exists>w3. check_database_schema w2 = (fst (check_database_schema w), w3) \<and> same_env w2 w3
         \<and> stdout w3 = stdout w2 @ out_of check_database_schema w)"
  proof (intro allI impI)
    fix w2 assume s: "same_env w w2"
    then have f: "fst (check_database_schema w2) = fst (check_database_schema w)"
      and o: "out_of check_database_schema w2 = out_of check_database_schema w"
      by (auto simp add: check_database_schema_run same_env_def split: option.splits)
    have "check_database_schema w2 =
        (fst (check_database_schema w), snd (check_database_schema w2))"
      using f by (simp add: prod_eq_iff)
    moreover have "same_env w2 (snd (check_database_schema w2))"
      by (rule check_database_schema_effect)
    moreover have "stdout (snd (check_database_schema w2)) =
        stdout w2 @ out_of check_database_schema w"
      using check_database_schema_effect(2)[of w2] o by simp
    ultimately show "\<exists>w3. check_database_schema w2 = (fst (check_database_schema w), w3)
        \<and> same_env w2 w3 \<and> stdout w3 = stdout w2 @ out_of check_database_schema w"
      by blast
  qed
  then show "\<exists>x out. \<forall>w2. same_env w w2 \<longrightarrow>
      (\<exists>w3. check_database_schema w2 = (x, w3) \<and> same_env w2 w3 \<and> stdout w3 = stdout w2 @ out)"
    by blast
qed

lemmas isolated_checks =
  isolated_check_database_schema isolated_check_chromadb_metadata
  isolated_check_model_definition isolated_check_route_definitions

lemma check_chromadb_metadata_type_error:
  assumes "chroma_connect_fault w = None" and "chroma_get_fault w = None"
    and "fst (has_mood_loop (take 5 (chroma_records w)) w) = Inl e"
  shows "fst (check_chromadb_metadata w) = Inr False"
    and "status Cross ''ERROR'' (str e) \<in> set (out_of check_chromadb_metadata w)"
proof -
  have "take 5 (chroma_records w) \<noteq> []"
    using assms(3) by (auto simp: ret_def)
  then show "fst (check_chromadb_metadata w) = Inr False"
    and "status Cross ''ERROR'' (str e) \<in> set (out_of check_chromadb_metadata w)"
    using assms by (simp_all add: check_chromadb_metadata_def run_simps isolated_intros)
qed

subsection \<open>The whole script\<close>

text \<open>When the four checks return, \<open>main\<close> returns after them, with their lines and the summary.\<close>

lemma main_run:
  assumes "fst (check_database_schema w) = Inr r1"
    and "fst (check_chromadb_metadata w) = Inr r2"
    and "fst (check_model_definition w) = Inr r3"
    and "fst (check_route_definitions w) = Inr r4"
  shows "fst (main w) = Inr (if r1 \<and> r2 \<and> r3 \<and> r4 then 0 else 1)"
    and "out_of main w =
      [Text (replicate 70 CHR ''=''), Text ''Mood Removal Verification Script'',
       Text (replicate 70 CHR ''='')] @
      out_of check_database_schema w @ out_of check_chromadb_metadata w @
      out_of check_model_definition w @ out_of check_route_definitions w @
      [Text (nl # replicate 70 CHR ''=''), Text ''Verification Summary'',
       Text (replicate 70 CHR ''='')] @
      map summary_line
        [(''Database Schema'', r1), (''ChromaDB Metadata'', r2),
         (''Model Definition'', r3), (''Route Definitions'', r4)] @
      [Text (nl # replicate 70 CHR ''=''),
       if r1 \<and> r2 \<and> r3 \<and> r4
       then Glyph [] Check '' All checks passed! Mood feature successfully removed.''
       else Glyph [] Cross '' Some checks failed. Please review the output above.'',
       Text (replicate 70 CHR ''='')]"
  using assms
  by (simp_all add: main_def Let_def run_simps isolated_intros isolated_checks print_loop_run)

text \<open>When the first check raises, \<open>main\<close> raises after the lines of that check.\<close>

lemma main_aborts:
  assumes "fst (check_database_schema w) = Inl e"
  shows "fst (main w) = Inl e"
    and "out_of main w =
      [Text (replicate 70 CHR ''=''), Text ''Mood Removal Verification Script'',
       Text (replicate 70 CHR ''='')] @ out_of check_database_schema w"
  using assms
  by (simp_all add: main_def Let_def run_simps isolated_intros isolated_checks print_loop_run)

text \<open>
  What holds of the isolation of the checks: as long as the session of the first check can
  be created and closed, \<open>main\<close> returns whatever else fails. Each check returns a truth
  value, the same one and with the same lines as when it runs alone, and the summary of the
  four results comes after the lines of the four checks. A check in which the query, the
  collection, a metadata entry, the import of the model or the reading of a file raises
  prints the error and counts as failed.
\<close>

lemma checks_isolated_when_session_opens_and_closes:
  assumes "db_fault w New_session = None" and "db_fault w Close = None"
  shows "\<exists>r1 r2 r3 r4.
     fst (check_database_schema w) = Inr r1 \<and> fst (check_chromadb_metadata w) = Inr r2
     \<and> fst (check_model_definition w) = Inr r3 \<and> fst (check_route_definitions w) = Inr r4
     \<and> fst (main w) = Inr (if r1 \<and> r2 \<and> r3 \<and> r4 then 0 else 1)
     \<and> out_of main w =
          [Text (replicate 70 CHR ''=''), Text ''Mood Removal Verification Script'',
           Text (replicate 70 CHR ''='')] @
          out_of check_database_schema w @ out_of check_chromadb_metadata w @
          out_of check_model_definition w @ out_of check_route_definitions w @
          [Text (nl # replicate 70 CHR ''=''), Text ''Verification Summary'',
           Text (replicate 70 CHR ''='')] @
          map summary_line
            [(''Database Schema'', r1), (''ChromaDB Metadata'', r2),
             (''Model Definition'', r3), (''Route Definitions'', r4)] @
          [Text (nl # replicate 70 CHR ''=''),
           if r1 \<and> r2 \<and> r3 \<and> r4
           then Glyph [] Check '' All checks passed! Mood feature successfully removed.''
           else Glyph [] Cross '' Some checks failed. Please review the output above.'',
           Text (replicate 70 CHR ''='')]
     \<and> (db_fault w Select = Some e \<longrightarrow>
          \<not> r1 \<and> status Cross ''ERROR'' (str e) \<in> set (out_of check_database_schema w))
     \<and> (chroma_connect_fault w = Some e \<longrightarrow>
          \<not> r2 \<and> status Cross ''ERROR'' (str e) \<in> set (out_of check_chromadb_metadata w))
     \<and> (chroma_connect_fault w = None \<and> chroma_get_fault w = Some e \<longrightarrow>
          \<not> r2 \<and> status Cross ''ERROR'' (str e) \<in> set (out_of check_chromadb_metadata w))
     \<and> (chroma_connect_fault w = None \<and> chroma_get_fault w = None
          \<and> fst (has_mood_loop (take 5 (chroma_records w)) w) = Inl e \<longrightarrow>
          \<not> r2 \<and> status Cross ''ERROR'' (str e) \<in> set (out_of check_chromadb_metadata w))
     \<and> (model_attrs w = Inl e \<longrightarrow>
          \<not> r3 \<and> status Cross ''ERROR'' (str e) \<in> set (out_of check_model_definition w))
     \<and> (p \<in> set files_to_check \<and> files w p = Inl e \<longrightarrow>
          \<not> r4 \<and> status Cross ''ERROR'' (''checking '' @ p @ '': '' @ str e)
                   \<in> set (out_of check_route_definitions w))"
proof -
  obtain r2 where r2: "fst (check_chromadb_metadata w) = Inr r2"
    using check_chromadb_metadata_returns by blast
  define r1 where "r1 = (db_fault w Select = None \<and> mood_column \<notin> set (info_columns w))"
  define r3 where "r3 = (case model_attrs w of Inl e \<Rightarrow> False | Inr attrs \<Rightarrow> ''mood'' \<notin> set attrs)"
  define r4 where "r4 = list_all (file_clean w) files_to_check"
  have r1: "fst (check_database_schema w) = Inr r1"
    using assms by (simp add: r1_def check_database_schema_run)
  have r3: "fst (check_model_definition w) = Inr r3"
    by (simp add: r3_def check_model_definition_run)
  have r4: "fst (check_route_definitions w) = Inr r4"
    by (simp add: r4_def check_route_definitions_run)
  note m = main_run[OF r1 r2 r3 r4]
  have e1: "db_fault w Select = Some e \<longrightarrow>
          \<not> r1 \<and> status Cross ''ERROR'' (str e) \<in> set (out_of check_database_schema w)"
    using assms by (simp add: r1_def check_database_schema_run)
  have e2: "chroma_connect_fault w = Some e \<longrightarrow>
          \<not> r2 \<and> status Cross ''ERROR'' (str e) \<in> set (out_of check_chromadb_metadata w)"
    using check_chromadb_metadata_connect_fault[of w e] r2 by auto
  have e3: "chroma_connect_fault w = None \<and> chroma_get_fault w = Some e \<longrightarrow>
          \<not> r2 \<and> status Cross ''ERROR'' (str e) \<in> set (out_of check_chromadb_metadata w)"
    using check_chromadb_metadata_get_fault[of w e] r2 by auto
  have e4: "chroma_connect_fault w = None \<and> chroma_get_fault w = None
          \<and> fst (has_mood_loop (take 5 (chroma_records w)) w) = Inl e \<longrightarrow>
          \<not> r2 \<and> status Cross ''ERROR'' (str e) \<in> set (out_of check_chromadb_metadata w)"
    using check_chromadb_metadata_type_error[of w e] r2 by auto
  have e5: "model_attrs w = Inl e \<longrightarrow>
          \<not> r3 \<and> status Cross ''ERROR'' (str e) \<in> set (out_of check_model_definition w)"
    by (simp add: r3_def check_model_definition_run)
  have e6: "p \<in> set files_to_check \<and> files w p = Inl e \<longrightarrow>
          \<not> r4 \<and> status Cross ''ERROR'' (''checking '' @ p @ '': '' @ str e)
                   \<in> set (out_of check_route_definitions w)"
    using check_route_definitions_file_error[of p w e] r4 by auto
  show ?thesis
    using r1 r2 r3 r4 m e1 e2 e3 e4 e5 e6 by blast
qed

text \<open>
  C9. The claim has every exception raised in a check caught, the check reported as an
  error and the other checks run. \<open>check_database_schema\<close> creates its session before the
  \<open>try\<close> and closes it in the \<open>finally\<close>, outside the \<open>except\<close>: in \<open>close_refused_world\<close>,
  where the query is answered and closing the session fails, the first check prints PASS and
  then raises, and \<open>main\<close> raises with it after the banner and the two lines of that check.
  The other three checks never run and no summary is printed.
\<close>

theorem close_failure_escapes_check_and_main:
  "fst (check_database_schema close_refused_world) = Inl (Exception ''connection lost'')
   \<and> out_of check_database_schema close_refused_world =
        [Text (nl # ''1. Checking Database Schema...''),
         status Check ''PASS'' ''mood column removed from database'']
   \<and> fst (main close_refused_world) = Inl (Exception ''connection lost'')
   \<and> out_of main close_refused_world =
        [Text (replicate 70 CHR ''=''), Text ''Mood Removal Verification Script'',
         Text (replicate 70 CHR ''=''),
         Text (nl # ''1. Checking Database Schema...''),
         status Check ''PASS'' ''mood column removed from database'']"
proof -
  let ?w = close_refused_world
  have c: "fst (check_database_schema ?w) = Inl (Exception ''connection lost'')"
    by (simp add: check_database_schema_run close_refused_world_def clean_world_def)
  have o: "out_of check_database_schema ?w =
        [Text (nl # ''1. Checking Database Schema...''),
         status Check ''PASS'' ''mood column removed from database'']"
    by (simp add: check_database_schema_run close_refused_world_def clean_world_def
        mood_column_def)
  have m: "fst (main ?w) = Inl (Exception ''connection lost'')"
    by (rule main_aborts(1)[OF c])
  have mo: "out_of main ?w =
        [Text (replicate 70 CHR ''=''), Text ''Mood Removal Verification Script'',
         Text (replicate 70 CHR ''=''),
         Text (nl # ''1. Checking Database Schema...''),
         status Check ''PASS'' ''mood column removed from database'']"
    using main_aborts(2)[OF c] o by simp
  show ?thesis by (intro conjI c o m mo)
qed

subsection \<open>Warnings and the exit status\<close>

lemmas string_eval =
  find_mood_refs_def nl_def dquote_def squote_def enumerate_eq_zip strip_def isspace_def
  lower_def lower_char_def char_of_def bit_Suc_0_iff

lemma find_mood_refs_quoted_line: "find_mood_refs quoted_line = [(1, quoted_line)]"
  by (simp add: quoted_line_def string_eval)

lemma find_mood_refs_plain: "find_mood_refs ''x = 1'' = []"
  by (simp add: string_eval)

text \<open>
  The check of the document store returns true exactly when nothing raises in it, with or
  without a warning.
\<close>

lemma check_chromadb_metadata_true_iff_nothing_raises:
  "fst (check_chromadb_metadata w) = Inr True \<longleftrightarrow>
     chroma_connect_fault w = None \<and> chroma_get_fault w = None
     \<and> (\<exists>b. fst (has_mood_loop (take 5 (chroma_records w)) w) = Inr b)"
proof (cases "chroma_connect_fault w")
  case (Some e)
  then show ?thesis by (simp add: check_chromadb_metadata_connect_fault)
next
  case None
  note c = None
  show ?thesis
  proof (cases "chroma_get_fault w")
    case (Some e)
    then show ?thesis using c by (simp add: check_chromadb_metadata_get_fault)
  next
    case None
    show ?thesis
    proof (cases "fst (has_mood_loop (take 5 (chroma_records w)) w)")
      case (Inl e)
      then show ?thesis using c None by (simp add: check_chromadb_metadata_type_error)
    next
      case (Inr b)
      then show ?thesis
        using c None by (simp add: check_chromadb_metadata_def run_simps isolated_intros)
    qed
  qed
qed

text \<open>
  C2. The claim has warnings never affect the verdict: the occurrences the check of the
  source files flags are warnings and do not make the exit status 1. In \<open>quoted_world\<close>
  nothing fails and nothing raises: the column is gone, the model has no such attribute,
  the document store gives its warning and returns true, and the check of the source files
  prints its header, one WARNING and the flagged line, no FAIL and no ERROR. That check
  returns false all the same, and the exit status is 1.
\<close>

theorem flagged_occurrence_gives_exit_status_1:
  "fst (check_database_schema quoted_world) = Inr True
   \<and> fst (check_chromadb_metadata quoted_world) = Inr True
   \<and> status Warn ''WARNING'' ''Some entries still have mood in metadata''
        \<in> set (out_of check_chromadb_metadata quoted_world)
   \<and> fst (check_model_definition quoted_world) = Inr True
   \<and> out_of check_route_definitions quoted_world =
        [Text (nl # ''4. Checking Route Definitions...''),
         status Warn ''WARNING'' ''Found mood references in app/routes/asrRoutes.py:'',
         Line_ref 1 quoted_line]
   \<and> fst (check_route_definitions quoted_world) = Inr False
   \<and> fst (main quoted_world) = Inr 1"
proof -
  let ?q = quoted_world
  have c1: "fst (check_database_schema ?q) = Inr True"
    by (simp add: check_database_schema_run quoted_world_def clean_world_def mood_column_def)
  have c2: "fst (check_chromadb_metadata ?q) = Inr True"
    by (rule check_chromadb_metadata_no_exception)
       (simp_all add: quoted_world_def clean_world_def)
  have o2: "status Warn ''WARNING'' ''Some entries still have mood in metadata''
        \<in> set (out_of check_chromadb_metadata ?q)"
    by (simp add: check_chromadb_metadata_def run_simps isolated_intros quoted_world_def
        clean_world_def)
  have c3: "fst (check_model_definition ?q) = Inr True"
    by (simp add: check_model_definition_run quoted_world_def clean_world_def)
  have f: "files ?q = (\<lambda>p. if p = ''app/routes/asrRoutes.py'' then Inr quoted_line else Inr ''x = 1'')"
    by (simp add: quoted_world_def clean_world_def)
  have o4: "out_of check_route_definitions ?q =
        [Text (nl # ''4. Checking Route Definitions...''),
         status Warn ''WARNING'' ''Found mood references in app/routes/asrRoutes.py:'',
         Line_ref 1 quoted_line]"
    by (simp add: check_route_definitions_run check_file_run file_clean_def f files_to_check_def
        find_mood_refs_quoted_line find_mood_refs_plain)
       (simp add: quoted_line_def)
  have c4: "fst (check_route_definitions ?q) = Inr False"
    by (simp add: check_route_definitions_run file_clean_def f files_to_check_def
        find_mood_refs_quoted_line)
  have m: "fst (main ?q) = Inr 1"
    using main_run(1)[OF c1 c2 c3 c4] by simp
  show ?thesis by (intro conjI c1 c2 o2 c3 o4 c4 m)
qed

end
